theory Spec2Isabelle
  imports Complex_Main
begin

section \<open>The teacher recipe of the TIMIT seq2seq experiment\<close>

text \<open>
  The script \<^verbatim>\<open>experiment_teacher.py\<close> defines the training procedure \<^verbatim>\<open>ASR\<close>
  (forward pass, objectives, one training step, one evaluation step, the end of an
  epoch) and a short main part that resumes, trains, restores the best checkpoint,
  evaluates and writes a report. Everything else is done by collaborators: the layers
  and costs of the hyperparameter bundle \<^verbatim>\<open>params\<close>, the two searchers, the
  checkpointer, and routines imported from the library.

  The embedding keeps that split. The collaborators are the fields of one record, taken
  as parameters; the functions of the script are definitions over that record. What the
  script mutates is a record of its own, passed through every function and returned
  updated; every call of a collaborator is appended to a log of calls, with the
  arguments it was given, so that the order of the calls and what was passed can be
  stated. An exception raised by the script itself (unpacking a tuple of the wrong
  length, a missing dictionary key, subscripting \<^verbatim>\<open>None\<close>) is a value of the result.
  An exception raised inside a collaborator aborts the run; the model describes the
  runs in which the collaborators return.
\<close>

subsection \<open>Tensors\<close>

text \<open>
  Waveforms, features, encoder states, logits and log-probabilities are never inspected
  by the script: their type is the parameter \<open>'t\<close>. The state of a stateful component
  (module weights, gradients, optimizer, scheduler, normalizer) is the parameter \<open>'m\<close>.
  Relative lengths are one-dimensional float tensors, here lists of reals, and a loss is
  a real: arithmetic on them is exact, not IEEE arithmetic. The padded label tensor is
  a list of rows together with its second dimension, which the script reads as
  \<^verbatim>\<open>phns.shape[1]\<close>. Moving a tensor to the device does not change its value and is
  left out.
\<close>

type_synonym lens = "real list"

record label_tensor =
  rows :: "nat list list"
  shape1 :: nat

type_synonym 't inputs = "string list \<times> 't \<times> lens"
type_synonym targets = "string list \<times> label_tensor \<times> lens"

text \<open>The value returned by the forward pass: a tuple of three or of four components.\<close>

datatype 't predictions =
  Three (ctc_of: 't) (seq_of: 't) (lens_of: lens)
| Four (ctc_of: 't) (seq_of: 't) (lens_of: lens) (hyps_of: "nat list list")

text \<open>The statistics of one batch: a dictionary from names to values.\<close>

datatype 'd stat = Loss real | Details "'d list"

type_synonym 'd stats = "string \<rightharpoonup> 'd stat"

datatype error =
  ValueError
| KeyError string
| TypeError

subsection \<open>The log of calls\<close>

datatype 't call =
  Augmentation 't lens bool
| Compute_features 't bool
| Normalize 't lens
| Enc 't bool
| Ctc_lin 't bool
| Log_softmax 't
| Prepend_bos_token label_tensor nat
| Emb label_tensor bool
| Dec 't 't lens bool
| Seq_lin 't bool
| Greedy_searcher 't lens
| Beam_searcher 't lens
| Append_eos_token label_tensor lens nat
| Ctc_cost 't label_tensor lens lens
| Seq_cost 't label_tensor lens
| Convert_index_to_lab "nat list list"
| Undo_padding label_tensor lens
| Wer_details_for_batch "string list" "string list list" "string list list" bool
| Backward real
| Optimizer_step
| Optimizer_zero_grad
| Summarize_error_rate
| Lr_annealing nat real
| Log_stats
| Save_checkpoint "string \<rightharpoonup> real"
| Delete_checkpoints "nat list"
| Load_checkpoint "string \<rightharpoonup> real"
| Wer_summary
| Open_file string
| Print_wer_summary
| Print_alignments

text \<open>The name of the collaborator that was called, without its arguments.\<close>

datatype callee =
  AUGMENTATION | COMPUTE_FEATURES | NORMALIZE | ENC | CTC_LIN | LOG_SOFTMAX
| PREPEND_BOS_TOKEN | EMB | DEC | SEQ_LIN | GREEDY_SEARCHER | BEAM_SEARCHER
| APPEND_EOS_TOKEN | CTC_COST | SEQ_COST | CONVERT_INDEX_TO_LAB | UNDO_PADDING
| WER_DETAILS_FOR_BATCH | BACKWARD | OPTIMIZER_STEP | OPTIMIZER_ZERO_GRAD
| SUMMARIZE_ERROR_RATE | LR_ANNEALING | LOG_STATS | SAVE_CHECKPOINT
| DELETE_CHECKPOINTS | LOAD_CHECKPOINT | WER_SUMMARY | OPEN_FILE
| PRINT_WER_SUMMARY | PRINT_ALIGNMENTS

fun callee_of :: "'t call \<Rightarrow> callee" where
  "callee_of (Augmentation _ _ _) = AUGMENTATION"
| "callee_of (Compute_features _ _) = COMPUTE_FEATURES"
| "callee_of (Normalize _ _) = NORMALIZE"
| "callee_of (Enc _ _) = ENC"
| "callee_of (Ctc_lin _ _) = CTC_LIN"
| "callee_of (Log_softmax _) = LOG_SOFTMAX"
| "callee_of (Prepend_bos_token _ _) = PREPEND_BOS_TOKEN"
| "callee_of (Emb _ _) = EMB"
| "callee_of (Dec _ _ _ _) = DEC"
| "callee_of (Seq_lin _ _) = SEQ_LIN"
| "callee_of (Greedy_searcher _ _) = GREEDY_SEARCHER"
| "callee_of (Beam_searcher _ _) = BEAM_SEARCHER"
| "callee_of (Append_eos_token _ _ _) = APPEND_EOS_TOKEN"
| "callee_of (Ctc_cost _ _ _ _) = CTC_COST"
| "callee_of (Seq_cost _ _ _) = SEQ_COST"
| "callee_of (Convert_index_to_lab _) = CONVERT_INDEX_TO_LAB"
| "callee_of (Undo_padding _ _) = UNDO_PADDING"
| "callee_of (Wer_details_for_batch _ _ _ _) = WER_DETAILS_FOR_BATCH"
| "callee_of (Backward _) = BACKWARD"
| "callee_of Optimizer_step = OPTIMIZER_STEP"
| "callee_of Optimizer_zero_grad = OPTIMIZER_ZERO_GRAD"
| "callee_of Summarize_error_rate = SUMMARIZE_ERROR_RATE"
| "callee_of (Lr_annealing _ _) = LR_ANNEALING"
| "callee_of Log_stats = LOG_STATS"
| "callee_of (Save_checkpoint _) = SAVE_CHECKPOINT"
| "callee_of (Delete_checkpoints _) = DELETE_CHECKPOINTS"
| "callee_of (Load_checkpoint _) = LOAD_CHECKPOINT"
| "callee_of Wer_summary = WER_SUMMARY"
| "callee_of (Open_file _) = OPEN_FILE"
| "callee_of Print_wer_summary = PRINT_WER_SUMMARY"
| "callee_of Print_alignments = PRINT_ALIGNMENTS"

subsection \<open>The state the script works on\<close>

text \<open>
  The recoverables are the five components the script registers with the checkpointer.
  The weights of the module list (encoder, embedding, decoder and the two output
  layers, with the augmentation when there is one) are the component \<open>model\<close>.
  A checkpoint is a snapshot of the recoverables with its metadata; the checkpoints on
  disk are kept in the order in which they were saved. \<open>clock\<close> is the time of the
  system clock, which a save reads.
\<close>

record 'm recoverables =
  model :: 'm
  optimizer :: 'm
  scheduler :: 'm
  normalizer :: 'm
  counter :: 'm

record 'm checkpoint =
  meta :: "string \<rightharpoonup> real"
  saved :: "'m recoverables"

record ('t, 'm) world =
  state :: "'m recoverables"
  grads :: 'm
  ckpts :: "'m checkpoint list"
  clock :: real
  calls :: "'t call list"

definition record_call :: "'t call \<Rightarrow> ('t, 'm) world \<Rightarrow> ('t, 'm) world" where
  "record_call c w = w\<lparr>calls := calls w @ [c]\<rparr>"

text \<open>The calls made between an earlier world and a later one.\<close>

definition new_calls :: "('t, 'm) world \<Rightarrow> ('t, 'm) world \<Rightarrow> 't call list" where
  "new_calls w w' = drop (length (calls w)) (calls w')"

subsection \<open>The collaborators\<close>

text \<open>
  One record holds what the script calls and does not define: the members of
  \<^verbatim>\<open>params\<close>, the two searchers built from them at lines 37 to 52, the routines
  imported from the library, and the three operations of the training step
  (\<^verbatim>\<open>loss.backward()\<close>, \<^verbatim>\<open>optimizer.step()\<close>, \<^verbatim>\<open>optimizer.zero_grad()\<close>).
  Every field keeps the name under which the script calls it, but for
  \<open>normalize_p\<close>, which is \<^verbatim>\<open>params.normalize\<close>.

  A layer, the augmentation or a searcher reads the weights of the module list and
  returns a value; it does not write them. The normalizer also returns its new running
  statistics. The flag \<^verbatim>\<open>init_params\<close> is passed on as the script passes it; what a
  layer does with it (the creation of its parameters on the first call) is inside the
  layer and is not part of the model.
  \<open>augmentation\<close> is optional, as \<^verbatim>\<open>hasattr(params, "augmentation")\<close> tests.
  \<open>label_dict\<close> is \<^verbatim>\<open>params.train_loader.label_dict\<close>.
  \<open>backward\<close> is the gradient computation: from the weights, the loss and the
  gradients accumulated so far to the new gradients. \<open>optimizer_step\<close> takes the
  optimizer state, the weights and the gradients to the new weights and optimizer
  state, \<open>optimizer_zero_grad\<close> resets the gradients.
\<close>

record ('t, 'm, 'd) params =
  augmentation :: "('m \<Rightarrow> 't \<Rightarrow> lens \<Rightarrow> bool \<Rightarrow> 't) option"
  compute_features :: "'t \<Rightarrow> bool \<Rightarrow> 't"
  normalize_p :: "'m \<Rightarrow> 't \<Rightarrow> lens \<Rightarrow> 't \<times> 'm"
  enc :: "'m \<Rightarrow> 't \<Rightarrow> bool \<Rightarrow> 't"
  ctc_lin :: "'m \<Rightarrow> 't \<Rightarrow> bool \<Rightarrow> 't"
  log_softmax :: "'t \<Rightarrow> 't"
  emb :: "'m \<Rightarrow> label_tensor \<Rightarrow> bool \<Rightarrow> 't"
  dec :: "'m \<Rightarrow> 't \<Rightarrow> 't \<Rightarrow> lens \<Rightarrow> bool \<Rightarrow> 't \<times> 't"
  seq_lin :: "'m \<Rightarrow> 't \<Rightarrow> bool \<Rightarrow> 't"
  bos_index :: nat
  eos_index :: nat
  ctc_cost :: "'t \<Rightarrow> label_tensor \<Rightarrow> lens \<Rightarrow> lens \<Rightarrow> real"
  seq_cost :: "'t \<Rightarrow> label_tensor \<Rightarrow> lens \<Rightarrow> real"
  ctc_weight :: real
  label_dict :: "string \<rightharpoonup> (string \<rightharpoonup> (nat \<rightharpoonup> string))"
  lr_annealing :: "'m \<Rightarrow> 'm \<Rightarrow> nat \<Rightarrow> real \<Rightarrow> (real \<times> real) \<times> 'm \<times> 'm"
  wer_file :: string
  greedy_searcher :: "'m \<Rightarrow> 't \<Rightarrow> lens \<Rightarrow> nat list list \<times> 't"
  beam_searcher :: "'m \<Rightarrow> 't \<Rightarrow> lens \<Rightarrow> nat list list \<times> 't"
  prepend_bos_token :: "label_tensor \<Rightarrow> nat \<Rightarrow> label_tensor"
  append_eos_token :: "label_tensor \<Rightarrow> lens \<Rightarrow> nat \<Rightarrow> label_tensor"
  convert_index_to_lab :: "nat list list \<Rightarrow> (nat \<rightharpoonup> string) \<Rightarrow> string list list"
  undo_padding :: "label_tensor \<Rightarrow> lens \<Rightarrow> nat list list"
  wer_details_for_batch ::
    "string list \<Rightarrow> string list list \<Rightarrow> string list list \<Rightarrow> bool \<Rightarrow> 'd list"
  summarize_error_rate :: "'d stat list \<Rightarrow> real"
  backward :: "'m \<Rightarrow> real \<Rightarrow> 'm \<Rightarrow> 'm"
  optimizer_step :: "'m \<Rightarrow> 'm \<Rightarrow> 'm \<Rightarrow> 'm \<times> 'm"
  optimizer_zero_grad :: "'m \<Rightarrow> 'm"

subsection \<open>The forward pass\<close>

definition compute_forward ::
  "('t, 'm, 'd) params \<Rightarrow> 't inputs \<Rightarrow> targets \<Rightarrow> string \<Rightarrow> bool \<Rightarrow> ('t, 'm) world
    \<Rightarrow> 't predictions \<times> ('t, 'm) world" where
  "compute_forward P x y stage init_params w =
    (case x of (ids, wavs, wav_lens) \<Rightarrow>
     case y of (_, phns, phn_lens) \<Rightarrow>
     let (wavs, w) =
           (case augmentation P of
              Some aug \<Rightarrow>
                (aug (model (state w)) wavs wav_lens init_params,
                 record_call (Augmentation wavs wav_lens init_params) w)
            | None \<Rightarrow> (wavs, w));
         feats = compute_features P wavs init_params;
         w = record_call (Compute_features wavs init_params) w;
         (normed, n) = normalize_p P (normalizer (state w)) feats wav_lens;
         w = record_call (Normalize feats wav_lens)
               (w\<lparr>state := (state w)\<lparr>normalizer := n\<rparr>\<rparr>);
         x = enc P (model (state w)) normed init_params;
         w = record_call (Enc normed init_params) w;
         logits = ctc_lin P (model (state w)) x init_params;
         w = record_call (Ctc_lin x init_params) w;
         p_ctc = log_softmax P logits;
         w = record_call (Log_softmax logits) w;
         y_in = prepend_bos_token P phns (bos_index P);
         w = record_call (Prepend_bos_token phns (bos_index P)) w;
         e_in = emb P (model (state w)) y_in init_params;
         w = record_call (Emb y_in init_params) w;
         (h, _) = dec P (model (state w)) e_in x wav_lens init_params;
         w = record_call (Dec e_in x wav_lens init_params) w;
         logits = seq_lin P (model (state w)) h init_params;
         w = record_call (Seq_lin h init_params) w;
         p_seq = log_softmax P logits;
         w = record_call (Log_softmax logits) w
     in if stage = ''valid'' then
          (let (hyps, scores) = greedy_searcher P (model (state w)) x wav_lens;
               w = record_call (Greedy_searcher x wav_lens) w
           in (Four p_ctc p_seq wav_lens hyps, w))
        else if stage = ''test'' then
          (let (hyps, scores) = beam_searcher P (model (state w)) x wav_lens;
               w = record_call (Beam_searcher x wav_lens) w
           in (Four p_ctc p_seq wav_lens hyps, w))
        else (Three p_ctc p_seq wav_lens, w))"

subsection \<open>The objectives\<close>

text \<open>\<^verbatim>\<open>torch.round\<close> rounds to the nearest integer, a half to the even neighbour.\<close>

definition torch_round :: "real \<Rightarrow> real" where
  "torch_round x =
    (let f = \<lfloor>x\<rfloor>; d = x - of_int f
     in of_int (if d < 1 / 2 then f
                else if 1 / 2 < d then f + 1
                else if even f then f else f + 1))"

text \<open>
  Lines 114 and 122 of the script. For a label tensor of width 0 the division of line
  122 yields infinities in the program; the reals have none, so what is said about
  \<open>rel_length\<close> is said for a positive width.
\<close>

definition abs_length :: "label_tensor \<Rightarrow> lens \<Rightarrow> lens" where
  "abs_length phns phn_lens = map (\<lambda>l. torch_round (l * real (shape1 phns))) phn_lens"

definition rel_length :: "label_tensor \<Rightarrow> lens \<Rightarrow> lens" where
  "rel_length phns phn_lens = map (\<lambda>a. (a + 1) / real (shape1 phns)) (abs_length phns phn_lens)"

text \<open>
  The unpacking of the predictions, which depends on the stage (lines 105 to 108): a
  tuple of the wrong length raises. The name \<^verbatim>\<open>hyps\<close> is bound exactly when the stage
  is not \<^verbatim>\<open>train\<close>, and it is read only then.
\<close>

definition unpack_predictions ::
  "'t predictions \<Rightarrow> string \<Rightarrow> error + ('t \<times> 't \<times> lens \<times> nat list list option)" where
  "unpack_predictions predictions stage =
    (if stage = ''train'' then
       (case predictions of
          Three p_ctc p_seq wav_lens \<Rightarrow> Inr (p_ctc, p_seq, wav_lens, None)
        | Four _ _ _ _ \<Rightarrow> Inl ValueError)
     else
       (case predictions of
          Three _ _ _ \<Rightarrow> Inl ValueError
        | Four p_ctc p_seq wav_lens hyps \<Rightarrow> Inr (p_ctc, p_seq, wav_lens, Some hyps)))"

definition compute_objectives ::
  "('t, 'm, 'd) params \<Rightarrow> 't predictions \<Rightarrow> targets \<Rightarrow> string \<Rightarrow> ('t, 'm) world
    \<Rightarrow> (error + real \<times> 'd stats) \<times> ('t, 'm) world" where
  "compute_objectives P predictions targets stage w =
    (case unpack_predictions predictions stage of
       Inl e \<Rightarrow> (Inl e, w)
     | Inr (p_ctc, p_seq, wav_lens, hyps) \<Rightarrow>
     (case targets of (ids, phns, phn_lens) \<Rightarrow>
     let abs_len = abs_length phns phn_lens;
         phns_with_eos = append_eos_token P phns abs_len (eos_index P);
         w = record_call (Append_eos_token phns abs_len (eos_index P)) w;
         rel_len = rel_length phns phn_lens;
         loss_ctc = ctc_cost P p_ctc phns wav_lens phn_lens;
         w = record_call (Ctc_cost p_ctc phns wav_lens phn_lens) w;
         loss_seq = seq_cost P p_seq phns_with_eos rel_len;
         w = record_call (Seq_cost p_seq phns_with_eos rel_len) w;
         loss = ctc_weight P * loss_ctc + (1 - ctc_weight P) * loss_seq
     in if stage \<noteq> ''train'' then
          (case label_dict P ''phn'' of
             None \<Rightarrow> (Inl (KeyError ''phn''), w)
           | Some d \<Rightarrow>
           (case d ''index2lab'' of
             None \<Rightarrow> (Inl (KeyError ''index2lab''), w)
           | Some ind2lab \<Rightarrow>
           let hyps = (case hyps of Some hs \<Rightarrow> hs | None \<Rightarrow> []);
               sequence = convert_index_to_lab P hyps ind2lab;
               w = record_call (Convert_index_to_lab hyps) w;
               unpadded = undo_padding P phns phn_lens;
               w = record_call (Undo_padding phns phn_lens) w;
               labs = convert_index_to_lab P unpadded ind2lab;
               w = record_call (Convert_index_to_lab unpadded) w;
               per_stats = wer_details_for_batch P ids labs sequence True;
               w = record_call (Wer_details_for_batch ids labs sequence True) w
           in (Inr (loss, [''PER'' \<mapsto> Details per_stats]), w)))
        else (Inr (loss, Map.empty), w)))"

subsection \<open>One training step and one evaluation step\<close>

text \<open>
  \<^verbatim>\<open>fit_batch\<close> calls the forward pass and the objectives with their default stage,
  \<^verbatim>\<open>train\<close>, and with \<^verbatim>\<open>init_params\<close> false. \<^verbatim>\<open>loss.detach()\<close> keeps the value
  of the loss.
\<close>

definition fit_batch ::
  "('t, 'm, 'd) params \<Rightarrow> 't inputs \<times> targets \<Rightarrow> ('t, 'm) world
    \<Rightarrow> (error + 'd stats) \<times> ('t, 'm) world" where
  "fit_batch P batch w =
    (case batch of (inputs, targets) \<Rightarrow>
     let (predictions, w) = compute_forward P inputs targets ''train'' False w
     in (case compute_objectives P predictions targets ''train'' w of
           (Inl e, w) \<Rightarrow> (Inl e, w)
         | (Inr (loss, stats), w) \<Rightarrow>
           let g = backward P (model (state w)) loss (grads w);
               w = record_call (Backward loss) (w\<lparr>grads := g\<rparr>);
               (m, opt) = optimizer_step P (optimizer (state w)) (model (state w)) (grads w);
               w = record_call Optimizer_step
                     (w\<lparr>state := (state w)\<lparr>model := m, optimizer := opt\<rparr>\<rparr>);
               g = optimizer_zero_grad P (grads w);
               w = record_call Optimizer_zero_grad (w\<lparr>grads := g\<rparr>)
           in (Inr (stats(''loss'' \<mapsto> Loss loss)), w)))"

definition evaluate_batch ::
  "('t, 'm, 'd) params \<Rightarrow> 't inputs \<times> targets \<Rightarrow> string \<Rightarrow> ('t, 'm) world
    \<Rightarrow> (error + 'd stats) \<times> ('t, 'm) world" where
  "evaluate_batch P batch stage w =
    (case batch of (inputs, targets) \<Rightarrow>
     let (predictions, w) = compute_forward P inputs targets stage False w
     in (case compute_objectives P predictions targets stage w of
           (Inl e, w) \<Rightarrow> (Inl e, w)
         | (Inr (loss, stats), w) \<Rightarrow> (Inr (stats(''loss'' \<mapsto> Loss loss)), w)))"

subsection \<open>The checkpointer\<close>

text \<open>
  An importance key gives a checkpoint a number, the greater the better, or raises.
\<close>

type_synonym 'm importance_key = "'m checkpoint \<Rightarrow> error + real"

text \<open>
  Modelled from the spec: \<^verbatim>\<open>ckpt_recency\<close> is imported and not defined in the script.
  The spec has it rank the most recent checkpoint first; here a save writes its time
  into the metadata, under \<^verbatim>\<open>unixtime\<close>, and the key reads it.
\<close>

definition ckpt_recency :: "'m importance_key" where
  "ckpt_recency c =
    (case meta c ''unixtime'' of None \<Rightarrow> Inl (KeyError ''unixtime'') | Some t \<Rightarrow> Inr t)"

text \<open>
  The second key is the lambda of lines 165 and 192, \<^verbatim>\<open>lambda c: -c.meta["PER"]\<close>,
  which raises on a checkpoint without that entry.
\<close>

definition neg_per :: "'m importance_key" where
  "neg_per c = (case meta c ''PER'' of None \<Rightarrow> Inl (KeyError ''PER'') | Some p \<Rightarrow> Inr (- p))"

text \<open>What the metadata of a checkpoint records, for a checkpoint that has the entry.\<close>

definition saved_at :: "'m checkpoint \<Rightarrow> real" where
  "saved_at c = the (meta c ''unixtime'')"

definition recorded_per :: "'m checkpoint \<Rightarrow> real" where
  "recorded_per c = the (meta c ''PER'')"

text \<open>
  Modelled from the spec: the ranking of the checkpointer is not in the script. The key
  is computed for every checkpoint; the first exception ends the ranking.
\<close>

fun key_values :: "'m importance_key \<Rightarrow> 'm checkpoint list \<Rightarrow> error + real list" where
  "key_values key [] = Inr []"
| "key_values key (c # cs) =
    (case key c of
       Inl e \<Rightarrow> Inl e
     | Inr v \<Rightarrow> (case key_values key cs of Inl e \<Rightarrow> Inl e | Inr vs \<Rightarrow> Inr (v # vs)))"

text \<open>
  Modelled from the spec: the best checkpoint is the one with the greatest key, ties
  broken by recency. Checkpoints are kept in the order of their saves, so of several
  greatest values the last position is taken.
\<close>

fun best_index :: "real list \<Rightarrow> nat option" where
  "best_index [] = None"
| "best_index (v # vs) =
    (case best_index vs of
       None \<Rightarrow> Some 0
     | Some i \<Rightarrow> if vs ! i < v then Some 0 else Some (Suc i))"

text \<open>
  Modelled from the spec: the search of the checkpointer, \<^verbatim>\<open>find_checkpoint\<close>, is not
  in the script. It ranks the checkpoints by an importance key; the result is the
  position of the best checkpoint, if there is any checkpoint.
\<close>

definition find_checkpoint ::
  "'m importance_key \<Rightarrow> 'm checkpoint list \<Rightarrow> error + nat option" where
  "find_checkpoint key cs =
    (case key_values key cs of Inl e \<Rightarrow> Inl e | Inr vs \<Rightarrow> Inr (best_index vs))"

text \<open>
  Modelled from the spec: the keys are applied in sequence, and each protects the
  checkpoint that is best by it.
\<close>

fun protected_checkpoints ::
  "'m importance_key list \<Rightarrow> 'm checkpoint list \<Rightarrow> error + nat list" where
  "protected_checkpoints [] cs = Inr []"
| "protected_checkpoints (key # keys) cs =
    (case find_checkpoint key cs of
       Inl e \<Rightarrow> Inl e
     | Inr found \<Rightarrow>
       (case protected_checkpoints keys cs of
          Inl e \<Rightarrow> Inl e
        | Inr kept \<Rightarrow> Inr ((case found of None \<Rightarrow> [] | Some i \<Rightarrow> [i]) @ kept)))"

text \<open>
  Modelled from the spec: the save of the checkpointer is not in the script. A
  checkpoint is a snapshot of the recoverables with the given metadata and the time of
  the save.
\<close>

definition save_checkpoint ::
  "(string \<rightharpoonup> real) \<Rightarrow> ('t, 'm) world \<Rightarrow> ('t, 'm) world" where
  "save_checkpoint m w =
    record_call (Save_checkpoint m)
      (w\<lparr>ckpts := ckpts w @ [\<lparr>meta = m(''unixtime'' \<mapsto> clock w), saved = state w\<rparr>]\<rparr>)"

text \<open>
  Modelled from the spec: the pruning of the checkpointer is not in the script. It
  keeps the protected checkpoints and discards all others.
\<close>

definition delete_checkpoints ::
  "'m importance_key list \<Rightarrow> ('t, 'm) world \<Rightarrow> (error + unit) \<times> ('t, 'm) world" where
  "delete_checkpoints importance_keys w =
    (case protected_checkpoints importance_keys (ckpts w) of
       Inl e \<Rightarrow> (Inl e, w)
     | Inr kept \<Rightarrow>
         (Inr (), record_call (Delete_checkpoints kept)
                    (w\<lparr>ckpts := nths (ckpts w) (set kept)\<rparr>)))"

text \<open>
  Modelled from the spec: \<^verbatim>\<open>Checkpointer.save_and_keep_only\<close> is not in the script.
  The spec has it save a checkpoint with the given metadata and then prune (section 8:
  for recency and the negated metric, exactly the most recent checkpoint and the one
  with the lowest metric remain).
\<close>

definition save_and_keep_only ::
  "(string \<rightharpoonup> real) \<Rightarrow> 'm importance_key list \<Rightarrow> ('t, 'm) world
    \<Rightarrow> (error + unit) \<times> ('t, 'm) world" where
  "save_and_keep_only m importance_keys w =
    delete_checkpoints importance_keys (save_checkpoint m w)"

text \<open>
  Modelled from the spec: \<^verbatim>\<open>Checkpointer.recover_if_possible\<close> is not in the script. The
  spec has it restore the recoverables from a checkpoint, the most recent one or,
  given a key, the best one by that key; without any checkpoint nothing is restored.
\<close>

definition recover_if_possible ::
  "'m importance_key option \<Rightarrow> ('t, 'm) world \<Rightarrow> (error + unit) \<times> ('t, 'm) world" where
  "recover_if_possible importance_key w =
    (case find_checkpoint (case importance_key of None \<Rightarrow> ckpt_recency | Some key \<Rightarrow> key)
            (ckpts w) of
       Inl e \<Rightarrow> (Inl e, w)
     | Inr None \<Rightarrow> (Inr (), w)
     | Inr (Some i) \<Rightarrow>
         (Inr (), record_call (Load_checkpoint (meta (ckpts w ! i)))
                    (w\<lparr>state := saved (ckpts w ! i)\<rparr>)))"

subsection \<open>The end of an epoch\<close>

text \<open>
  The statistics of a data set map a name to the values of its batches.
  \<^verbatim>\<open>valid_stats\<close> defaults to \<^verbatim>\<open>None\<close>, and subscripting \<^verbatim>\<open>None\<close> raises.
\<close>

type_synonym 'd dataset_stats = "string \<rightharpoonup> 'd stat list"

definition on_epoch_end ::
  "('t, 'm, 'd) params \<Rightarrow> nat \<Rightarrow> 'd dataset_stats \<Rightarrow> 'd dataset_stats option
    \<Rightarrow> ('t, 'm) world \<Rightarrow> (error + unit) \<times> ('t, 'm) world" where
  "on_epoch_end P epoch train_stats valid_stats w =
    (case valid_stats of
       None \<Rightarrow> (Inl TypeError, w)
     | Some vs \<Rightarrow>
       (case vs ''PER'' of
          None \<Rightarrow> (Inl (KeyError ''PER''), w)
        | Some details \<Rightarrow>
          let per = summarize_error_rate P details;
              w = record_call Summarize_error_rate w;
              ((old_lr, new_lr), opt, sch) =
                 lr_annealing P (scheduler (state w)) (optimizer (state w)) epoch per;
              w = record_call (Lr_annealing epoch per)
                    (w\<lparr>state := (state w)\<lparr>optimizer := opt, scheduler := sch\<rparr>\<rparr>);
              w = record_call Log_stats w
          in save_and_keep_only [''PER'' \<mapsto> per] [ckpt_recency, neg_per] w))"

subsection \<open>The main part\<close>

text \<open>
  Modelled from the spec: the collection of statistics by the generic trainer is not
  in the script. The value of each name of a batch is appended to the values of that
  name.
\<close>

definition add_stats :: "'d dataset_stats \<Rightarrow> 'd stats \<Rightarrow> 'd dataset_stats" where
  "add_stats dataset_stats batch_stats =
    (\<lambda>k. case batch_stats k of
           None \<Rightarrow> dataset_stats k
         | Some v \<Rightarrow> Some ((case dataset_stats k of None \<Rightarrow> [] | Some vs \<Rightarrow> vs) @ [v]))"

text \<open>
  Modelled from the spec: \<^verbatim>\<open>Brain.evaluate\<close>, the test loop of the generic trainer, is
  not in the script. It runs \<^verbatim>\<open>evaluate_batch\<close> at stage \<^verbatim>\<open>test\<close> on every batch of
  the test set, in order, and collects the statistics; an exception ends it.
\<close>

fun evaluate_from ::
  "('t, 'm, 'd) params \<Rightarrow> ('t inputs \<times> targets) list \<Rightarrow> 'd dataset_stats
    \<Rightarrow> ('t, 'm) world \<Rightarrow> (error + 'd dataset_stats) \<times> ('t, 'm) world" where
  "evaluate_from P [] test_stats w = (Inr test_stats, w)"
| "evaluate_from P (batch # test_set) test_stats w =
    (case evaluate_batch P batch ''test'' w of
       (Inl e, w) \<Rightarrow> (Inl e, w)
     | (Inr stats, w) \<Rightarrow> evaluate_from P test_set (add_stats test_stats stats) w)"

text \<open>Modelled from the spec: \<^verbatim>\<open>Brain.evaluate\<close> starts from empty statistics.\<close>

definition evaluate ::
  "('t, 'm, 'd) params \<Rightarrow> ('t inputs \<times> targets) list \<Rightarrow> ('t, 'm) world
    \<Rightarrow> (error + 'd dataset_stats) \<times> ('t, 'm) world" where
  "evaluate P test_set w = evaluate_from P test_set Map.empty w"

text \<open>
  Lines 187 to 203: resume from the latest checkpoint, train, restore the best
  checkpoint, evaluate on the test set, log, and write the report. The training loop of
  the generic trainer is the parameter \<open>fit\<close>; the batches of the test loader are the
  parameter \<open>test_set\<close>.
\<close>

definition main ::
  "('t, 'm, 'd) params \<Rightarrow> (('t, 'm) world \<Rightarrow> (error + unit) \<times> ('t, 'm) world)
    \<Rightarrow> ('t inputs \<times> targets) list \<Rightarrow> ('t, 'm) world
    \<Rightarrow> (error + unit) \<times> ('t, 'm) world" where
  "main P fit test_set w =
    (case recover_if_possible None w of
       (Inl e, w) \<Rightarrow> (Inl e, w)
     | (Inr _, w) \<Rightarrow>
    (case fit w of
       (Inl e, w) \<Rightarrow> (Inl e, w)
     | (Inr _, w) \<Rightarrow>
    (case recover_if_possible (Some neg_per) w of
       (Inl e, w) \<Rightarrow> (Inl e, w)
     | (Inr _, w) \<Rightarrow>
    (case evaluate P test_set w of
       (Inl e, w) \<Rightarrow> (Inl e, w)
     | (Inr test_stats, w) \<Rightarrow>
       let w = record_call Log_stats w
       in (case test_stats ''PER'' of
             None \<Rightarrow> (Inl (KeyError ''PER''), w)
           | Some details \<Rightarrow>
             let w = record_call Wer_summary w;
                 w = record_call (Open_file (wer_file P)) w;
                 w = record_call Print_wer_summary w;
                 w = record_call Print_alignments w
             in (Inr (), w))))))"

subsection \<open>The order of the calls of the forward pass\<close>

text \<open>
  The collaborators the forward pass calls, in the order of lines 75 to 100: the
  augmentation if there is one, the acoustic path, the decoder path with teacher
  forcing, and the searcher of the stage.
\<close>

definition forward_callees :: "('t, 'm, 'd) params \<Rightarrow> string \<Rightarrow> callee list" where
  "forward_callees P stage =
    (case augmentation P of None \<Rightarrow> [] | Some _ \<Rightarrow> [AUGMENTATION]) @
    [COMPUTE_FEATURES, NORMALIZE, ENC, CTC_LIN, LOG_SOFTMAX,
     PREPEND_BOS_TOKEN, EMB, DEC, SEQ_LIN, LOG_SOFTMAX] @
    (if stage = ''valid'' then [GREEDY_SEARCHER]
     else if stage = ''test'' then [BEAM_SEARCHER] else [])"

text \<open>
  Names for what the objectives compute and log: the loss of line 126, the three calls
  of lines 117 to 125, and the four calls of the scoring of lines 131 to 136.
\<close>

definition weighted_loss ::
  "('t, 'm, 'd) params \<Rightarrow> 't \<Rightarrow> 't \<Rightarrow> lens \<Rightarrow> label_tensor \<Rightarrow> lens \<Rightarrow> real" where
  "weighted_loss P p_ctc p_seq wav_lens phns phn_lens =
    ctc_weight P * ctc_cost P p_ctc phns wav_lens phn_lens +
    (1 - ctc_weight P) *
      seq_cost P p_seq (append_eos_token P phns (abs_length phns phn_lens) (eos_index P))
        (rel_length phns phn_lens)"

definition cost_calls ::
  "('t, 'm, 'd) params \<Rightarrow> 't \<Rightarrow> 't \<Rightarrow> lens \<Rightarrow> label_tensor \<Rightarrow> lens \<Rightarrow> 't call list" where
  "cost_calls P p_ctc p_seq wav_lens phns phn_lens =
    [Append_eos_token phns (abs_length phns phn_lens) (eos_index P),
     Ctc_cost p_ctc phns wav_lens phn_lens,
     Seq_cost p_seq (append_eos_token P phns (abs_length phns phn_lens) (eos_index P))
       (rel_length phns phn_lens)]"

definition scoring_calls ::
  "('t, 'm, 'd) params \<Rightarrow> string list \<Rightarrow> label_tensor \<Rightarrow> lens \<Rightarrow> nat list list
    \<Rightarrow> (nat \<rightharpoonup> string) \<Rightarrow> 't call list" where
  "scoring_calls P ids phns phn_lens hyps ind2lab =
    [Convert_index_to_lab hyps,
     Undo_padding phns phn_lens,
     Convert_index_to_lab (undo_padding P phns phn_lens),
     Wer_details_for_batch ids
       (convert_index_to_lab P (undo_padding P phns phn_lens) ind2lab)
       (convert_index_to_lab P hyps ind2lab) True]"

definition per_details ::
  "('t, 'm, 'd) params \<Rightarrow> string list \<Rightarrow> label_tensor \<Rightarrow> lens \<Rightarrow> nat list list
    \<Rightarrow> (nat \<rightharpoonup> string) \<Rightarrow> 'd list" where
  "per_details P ids phns phn_lens hyps ind2lab =
    wer_details_for_batch P ids
      (convert_index_to_lab P (undo_padding P phns phn_lens) ind2lab)
      (convert_index_to_lab P hyps ind2lab) True"

text \<open>The collaborators an evaluation step can call: those of the forward pass and of the objectives.\<close>

definition evaluation_callees :: "callee list" where
  "evaluation_callees =
    [AUGMENTATION, COMPUTE_FEATURES, NORMALIZE, ENC, CTC_LIN, LOG_SOFTMAX,
     PREPEND_BOS_TOKEN, EMB, DEC, SEQ_LIN, GREEDY_SEARCHER, BEAM_SEARCHER,
     APPEND_EOS_TOKEN, CTC_COST, SEQ_COST, CONVERT_INDEX_TO_LAB, UNDO_PADDING,
     WER_DETAILS_FOR_BATCH]"

text \<open>Whether \<open>a\<close> occurs in a list before some later occurrence of \<open>b\<close>.\<close>

fun precedes :: "'a \<Rightarrow> 'a \<Rightarrow> 'a list \<Rightarrow> bool" where
  "precedes a b [] = False"
| "precedes a b (x # xs) = ((x = a \<and> b \<in> set xs) \<or> precedes a b xs)"

subsection \<open>A small configuration to run the definitions on\<close>

text \<open>
  Tensors and component states are natural numbers here; every collaborator is a
  simple function, so that each definition above evaluates on it.
\<close>

definition demo_params :: "(nat, nat, nat) params" where
  "demo_params =
    \<lparr>augmentation = Some (\<lambda>m wavs wav_lens init_params. wavs + 1),
     compute_features = (\<lambda>wavs init_params. 2 * wavs),
     normalize_p = (\<lambda>n feats wav_lens. (feats + 3, n + 1)),
     enc = (\<lambda>m feats init_params. feats + m),
     ctc_lin = (\<lambda>m x init_params. x + 5),
     log_softmax = (\<lambda>logits. logits),
     emb = (\<lambda>m y_in init_params. shape1 y_in),
     dec = (\<lambda>m e_in x wav_lens init_params. (e_in + x, 0)),
     seq_lin = (\<lambda>m h init_params. h + 7),
     bos_index = 0,
     eos_index = 1,
     ctc_cost = (\<lambda>p_ctc phns wav_lens phn_lens. 2),
     seq_cost = (\<lambda>p_seq phns rel. 6),
     ctc_weight = 1 / 4,
     label_dict = [''phn'' \<mapsto> [''index2lab'' \<mapsto> [0 \<mapsto> ''a'', 1 \<mapsto> ''b'']]],
     lr_annealing = (\<lambda>sch opt epoch per. ((1, 1 / 2), opt, sch + 1)),
     wer_file = ''wer.txt'',
     greedy_searcher = (\<lambda>m x wav_lens. ([[0]], 0)),
     beam_searcher = (\<lambda>m x wav_lens. ([[1]], 0)),
     prepend_bos_token =
       (\<lambda>phns b. \<lparr>rows = map ((#) b) (rows phns), shape1 = shape1 phns + 1\<rparr>),
     append_eos_token =
       (\<lambda>phns len e. \<lparr>rows = map (\<lambda>r. r @ [e]) (rows phns), shape1 = shape1 phns + 1\<rparr>),
     convert_index_to_lab =
       (\<lambda>xs d. map (map (\<lambda>i. case d i of None \<Rightarrow> ''?'' | Some s \<Rightarrow> s)) xs),
     undo_padding = (\<lambda>phns phn_lens. rows phns),
     wer_details_for_batch = (\<lambda>ids refs hyps alignments. [length ids]),
     summarize_error_rate = (\<lambda>details. 10),
     backward = (\<lambda>m loss g. g + 1),
     optimizer_step = (\<lambda>opt m g. (m + g, opt + 1)),
     optimizer_zero_grad = (\<lambda>g. 0)\<rparr>"

definition demo_world :: "(nat, nat) world" where
  "demo_world =
    \<lparr>state = \<lparr>model = 1, optimizer = 2, scheduler = 3, normalizer = 4, counter = 0\<rparr>,
     grads = 0, ckpts = [], clock = 100, calls = []\<rparr>"

text \<open>Two checkpoints on disk: an early one with a low error rate and a later, worse one.\<close>

definition demo_ckpt1 :: "nat checkpoint" where
  "demo_ckpt1 =
    \<lparr>meta = [''PER'' \<mapsto> 5, ''unixtime'' \<mapsto> 10],
     saved = \<lparr>model = 7, optimizer = 2, scheduler = 3, normalizer = 4, counter = 1\<rparr>\<rparr>"

definition demo_ckpt2 :: "nat checkpoint" where
  "demo_ckpt2 =
    \<lparr>meta = [''PER'' \<mapsto> 30, ''unixtime'' \<mapsto> 20],
     saved = \<lparr>model = 8, optimizer = 2, scheduler = 3, normalizer = 4, counter = 2\<rparr>\<rparr>"

definition demo_world_ckpts :: "(nat, nat) world" where
  "demo_world_ckpts = demo_world\<lparr>ckpts := [demo_ckpt1, demo_ckpt2]\<rparr>"

definition demo_valid_stats :: "nat dataset_stats" where
  "demo_valid_stats = [''PER'' \<mapsto> [Details [1]], ''loss'' \<mapsto> [Loss 5]]"

definition demo_inputs :: "nat inputs" where
  "demo_inputs = ([''utt1''], 5, [1])"

definition demo_phns :: label_tensor where
  "demo_phns = \<lparr>rows = [[2, 3, 0]], shape1 = 3\<rparr>"

definition demo_targets :: targets where
  "demo_targets = ([''utt1''], demo_phns, [2 / 3])"

section \<open>Properties\<close>

subsection \<open>The fields of the small configuration\<close>

lemma demo_params_sel:
  "augmentation demo_params = Some (\<lambda>m wavs wav_lens init_params. wavs + 1)"
  "compute_features demo_params = (\<lambda>wavs init_params. 2 * wavs)"
  "normalize_p demo_params = (\<lambda>n feats wav_lens. (feats + 3, n + 1))"
  "enc demo_params = (\<lambda>m feats init_params. feats + m)"
  "ctc_lin demo_params = (\<lambda>m x init_params. x + 5)"
  "log_softmax demo_params = (\<lambda>logits. logits)"
  "emb demo_params = (\<lambda>m y_in init_params. shape1 y_in)"
  "dec demo_params = (\<lambda>m e_in x wav_lens init_params. (e_in + x, 0))"
  "seq_lin demo_params = (\<lambda>m h init_params. h + 7)"
  "bos_index demo_params = 0"
  "eos_index demo_params = 1"
  "ctc_cost demo_params = (\<lambda>p_ctc phns wav_lens phn_lens. 2)"
  "seq_cost demo_params = (\<lambda>p_seq phns rel. 6)"
  "ctc_weight demo_params = 1 / 4"
  "label_dict demo_params = [''phn'' \<mapsto> [''index2lab'' \<mapsto> [0 \<mapsto> ''a'', 1 \<mapsto> ''b'']]]"
  "lr_annealing demo_params = (\<lambda>sch opt epoch per. ((1, 1 / 2), opt, sch + 1))"
  "wer_file demo_params = ''wer.txt''"
  "greedy_searcher demo_params = (\<lambda>m x wav_lens. ([[0]], 0))"
  "beam_searcher demo_params = (\<lambda>m x wav_lens. ([[1]], 0))"
  "prepend_bos_token demo_params =
     (\<lambda>phns b. \<lparr>rows = map ((#) b) (rows phns), shape1 = shape1 phns + 1\<rparr>)"
  "append_eos_token demo_params =
     (\<lambda>phns len e. \<lparr>rows = map (\<lambda>r. r @ [e]) (rows phns), shape1 = shape1 phns + 1\<rparr>)"
  "convert_index_to_lab demo_params =
     (\<lambda>xs d. map (map (\<lambda>i. case d i of None \<Rightarrow> ''?'' | Some s \<Rightarrow> s)) xs)"
  "undo_padding demo_params = (\<lambda>phns phn_lens. rows phns)"
  "wer_details_for_batch demo_params = (\<lambda>ids refs hyps alignments. [length ids])"
  "summarize_error_rate demo_params = (\<lambda>details. 10)"
  "backward demo_params = (\<lambda>m loss g. g + 1)"
  "optimizer_step demo_params = (\<lambda>opt m g. (m + g, opt + 1))"
  "optimizer_zero_grad demo_params = (\<lambda>g. 0)"
  by (simp_all add: demo_params_def)

lemma demo_world_sel:
  "calls demo_world = []"
  "ckpts demo_world = []"
  "grads demo_world = 0"
  "clock demo_world = 100"
  "state demo_world =
     \<lparr>model = 1, optimizer = 2, scheduler = 3, normalizer = 4, counter = 0\<rparr>"
  by (simp_all add: demo_world_def)

lemma demo_phns_sel:
  "rows demo_phns = [[2, 3, 0]]"
  "shape1 demo_phns = 3"
  by (simp_all add: demo_phns_def)

subsection \<open>The forward pass in straight-line form\<close>

text \<open>
  The same function with its intermediate values named once and the log written as one
  list. The three ways the stage can fall and the two ways the augmentation can be
  present are settled before the definition is unfolded.
\<close>

lemma compute_forward_eq:
  "compute_forward P (ids, wavs, wav_lens) y stage ip w =
    (let wavs' = (case augmentation P of None \<Rightarrow> wavs
                  | Some aug \<Rightarrow> aug (model (state w)) wavs wav_lens ip);
         feats = compute_features P wavs' ip;
         nm = normalize_p P (normalizer (state w)) feats wav_lens;
         x = enc P (model (state w)) (fst nm) ip;
         logits = ctc_lin P (model (state w)) x ip;
         y_in = prepend_bos_token P (fst (snd y)) (bos_index P);
         e_in = emb P (model (state w)) y_in ip;
         h = fst (dec P (model (state w)) e_in x wav_lens ip);
         logits2 = seq_lin P (model (state w)) h ip;
         cs = (case augmentation P of None \<Rightarrow> []
               | Some aug \<Rightarrow> [Augmentation wavs wav_lens ip]) @
              [Compute_features wavs' ip, Normalize feats wav_lens, Enc (fst nm) ip,
               Ctc_lin x ip, Log_softmax logits,
               Prepend_bos_token (fst (snd y)) (bos_index P),
               Emb y_in ip, Dec e_in x wav_lens ip, Seq_lin h ip, Log_softmax logits2] @
              (if stage = ''valid'' then [Greedy_searcher x wav_lens]
               else if stage = ''test'' then [Beam_searcher x wav_lens] else [])
     in ((if stage = ''valid'' then
            Four (log_softmax P logits) (log_softmax P logits2) wav_lens
              (fst (greedy_searcher P (model (state w)) x wav_lens))
          else if stage = ''test'' then
            Four (log_softmax P logits) (log_softmax P logits2) wav_lens
              (fst (beam_searcher P (model (state w)) x wav_lens))
          else Three (log_softmax P logits) (log_softmax P logits2) wav_lens),
         w\<lparr>state := (state w)\<lparr>normalizer := snd nm\<rparr>, calls := calls w @ cs\<rparr>))"
proof (cases "augmentation P")
  case None
  show ?thesis
  proof (cases "stage = ''valid''")
    case True
    with None show ?thesis
      by (simp add: compute_forward_def Let_def split_beta record_call_def)
  next
    case False
    note nv = this
    show ?thesis
    proof (cases "stage = ''test''")
      case True
      with None show ?thesis
        by (simp add: compute_forward_def Let_def split_beta record_call_def)
    next
      case False
      with None nv show ?thesis
        by (simp add: compute_forward_def Let_def split_beta record_call_def)
    qed
  qed
next
  case (Some aug)
  show ?thesis
  proof (cases "stage = ''valid''")
    case True
    with Some show ?thesis
      by (simp add: compute_forward_def Let_def split_beta record_call_def)
  next
    case False
    note nv = this
    show ?thesis
    proof (cases "stage = ''test''")
      case True
      with Some show ?thesis
        by (simp add: compute_forward_def Let_def split_beta record_call_def)
    next
      case False
      with Some nv show ?thesis
        by (simp add: compute_forward_def Let_def split_beta record_call_def)
    qed
  qed
qed

lemma new_calls_append: "calls w' = calls w @ cs \<Longrightarrow> new_calls w w' = cs"
  by (simp add: new_calls_def)

text \<open>The forward pass changes the running statistics of the normalizer and the log, nothing else.\<close>

lemma compute_forward_frame:
  "model (state (snd (compute_forward P x y stage ip w))) = model (state w) \<and>
   optimizer (state (snd (compute_forward P x y stage ip w))) = optimizer (state w) \<and>
   scheduler (state (snd (compute_forward P x y stage ip w))) = scheduler (state w) \<and>
   counter (state (snd (compute_forward P x y stage ip w))) = counter (state w) \<and>
   grads (snd (compute_forward P x y stage ip w)) = grads w \<and>
   ckpts (snd (compute_forward P x y stage ip w)) = ckpts w \<and>
   clock (snd (compute_forward P x y stage ip w)) = clock w"
proof -
  obtain ids wavs wav_lens where x: "x = (ids, wavs, wav_lens)"
    by (cases x) auto
  show ?thesis
    unfolding x compute_forward_eq by (simp add: Let_def)
qed

lemma compute_forward_new_calls:
  "calls (snd (compute_forward P x y stage ip w))
     = calls w @ new_calls w (snd (compute_forward P x y stage ip w))"
proof -
  obtain ids wavs wav_lens where x: "x = (ids, wavs, wav_lens)"
    by (cases x) auto
  show ?thesis
    unfolding x compute_forward_eq by (simp add: Let_def new_calls_def)
qed

lemma compute_forward_callees:
  "map callee_of (new_calls w (snd (compute_forward P x y stage ip w)))
     = forward_callees P stage"
proof -
  obtain ids wavs wav_lens where x: "x = (ids, wavs, wav_lens)"
    by (cases x) auto
  show ?thesis
    unfolding x compute_forward_eq
    by (simp add: Let_def new_calls_def forward_callees_def split: option.splits)
qed

text \<open>The forward pass on the small configuration, at the stages used below.\<close>

lemma demo_forward:
  "compute_forward demo_params demo_inputs demo_targets ''train'' False demo_world =
    (Three 21 27 [1],
     demo_world\<lparr>state := (state demo_world)\<lparr>normalizer := 5\<rparr>,
       calls := [Augmentation 5 [1] False, Compute_features 6 False, Normalize 12 [1],
                 Enc 15 False, Ctc_lin 16 False, Log_softmax 21,
                 Prepend_bos_token demo_phns 0,
                 Emb \<lparr>rows = [[0, 2, 3, 0]], shape1 = 4\<rparr> False,
                 Dec 4 16 [1] False, Seq_lin 20 False, Log_softmax 27]\<rparr>)"
  "compute_forward demo_params demo_inputs demo_targets ''valid'' False demo_world =
    (Four 21 27 [1] [[0]],
     demo_world\<lparr>state := (state demo_world)\<lparr>normalizer := 5\<rparr>,
       calls := [Augmentation 5 [1] False, Compute_features 6 False, Normalize 12 [1],
                 Enc 15 False, Ctc_lin 16 False, Log_softmax 21,
                 Prepend_bos_token demo_phns 0,
                 Emb \<lparr>rows = [[0, 2, 3, 0]], shape1 = 4\<rparr> False,
                 Dec 4 16 [1] False, Seq_lin 20 False, Log_softmax 27,
                 Greedy_searcher 16 [1]]\<rparr>)"
  "compute_forward demo_params demo_inputs demo_targets ''test'' False demo_world =
    (Four 21 27 [1] [[1]],
     demo_world\<lparr>state := (state demo_world)\<lparr>normalizer := 5\<rparr>,
       calls := [Augmentation 5 [1] False, Compute_features 6 False, Normalize 12 [1],
                 Enc 15 False, Ctc_lin 16 False, Log_softmax 21,
                 Prepend_bos_token demo_phns 0,
                 Emb \<lparr>rows = [[0, 2, 3, 0]], shape1 = 4\<rparr> False,
                 Dec 4 16 [1] False, Seq_lin 20 False, Log_softmax 27,
                 Beam_searcher 16 [1]]\<rparr>)"
  "compute_forward demo_params demo_inputs demo_targets ''dev'' False demo_world =
    (Three 21 27 [1],
     demo_world\<lparr>state := (state demo_world)\<lparr>normalizer := 5\<rparr>,
       calls := [Augmentation 5 [1] False, Compute_features 6 False, Normalize 12 [1],
                 Enc 15 False, Ctc_lin 16 False, Log_softmax 21,
                 Prepend_bos_token demo_phns 0,
                 Emb \<lparr>rows = [[0, 2, 3, 0]], shape1 = 4\<rparr> False,
                 Dec 4 16 [1] False, Seq_lin 20 False, Log_softmax 27]\<rparr>)"
  unfolding demo_inputs_def demo_targets_def compute_forward_eq
  by (simp_all add: Let_def demo_params_sel demo_world_def demo_phns_def)

subsection \<open>The stage selects the decoder\<close>

text \<open>
  The stage is a Python string and the forward pass compares it with \<^verbatim>\<open>"valid"\<close> and
  \<^verbatim>\<open>"test"\<close> only. A stage outside train, valid and test is therefore not rejected:
  on the small configuration the stage \<^verbatim>\<open>dev\<close> gives the three components that
  \<^verbatim>\<open>train\<close> gives. So the stages the forward pass works on are not exactly the set
  of train, valid and test.
\<close>

theorem compute_forward_stage_set_counterexample:
  "''dev'' \<notin> {''train'', ''valid'', ''test''} \<and>
   fst (compute_forward demo_params demo_inputs demo_targets ''dev'' False demo_world)
     = Three 21 27 [1] \<and>
   fst (compute_forward demo_params demo_inputs demo_targets ''dev'' False demo_world)
     = fst (compute_forward demo_params demo_inputs demo_targets ''train'' False demo_world)"
  by (simp add: demo_forward)

text \<open>
  C2, as amended. For every input batch: at stage \<^verbatim>\<open>valid\<close> the forward pass runs the
  greedy searcher, as its last call, and returns four components, the fourth being the
  hypotheses of that call, and it runs no beam search; at stage \<^verbatim>\<open>test\<close> it does the
  same with the beam searcher and runs no greedy search; at any other stage string,
  \<^verbatim>\<open>train\<close> included, it runs no searcher and returns three components. The first
  component is always the log-softmax of the CTC layer on the encoder states (the
  states the searcher is run on), the second the log-softmax of the sequence layer,
  the third the waveform lengths of the batch.
\<close>

theorem compute_forward_stages:
  fixes P :: "('t, 'm, 'd) params" and w :: "('t, 'm) world"
  shows
  "(stage = ''valid'' \<longrightarrow>
      (\<exists>x h.
          fst (compute_forward P (ids, wavs, wav_lens) y stage ip w)
            = Four (log_softmax P (ctc_lin P (model (state w)) x ip))
                (log_softmax P (seq_lin P (model (state w)) h ip)) wav_lens
                (fst (greedy_searcher P (model (state w)) x wav_lens)) \<and>
          last (new_calls w (snd (compute_forward P (ids, wavs, wav_lens) y stage ip w)))
            = Greedy_searcher x wav_lens) \<and>
      BEAM_SEARCHER \<notin>
        set (map callee_of (new_calls w (snd (compute_forward P (ids, wavs, wav_lens) y stage ip w))))) \<and>
   (stage = ''test'' \<longrightarrow>
      (\<exists>x h.
          fst (compute_forward P (ids, wavs, wav_lens) y stage ip w)
            = Four (log_softmax P (ctc_lin P (model (state w)) x ip))
                (log_softmax P (seq_lin P (model (state w)) h ip)) wav_lens
                (fst (beam_searcher P (model (state w)) x wav_lens)) \<and>
          last (new_calls w (snd (compute_forward P (ids, wavs, wav_lens) y stage ip w)))
            = Beam_searcher x wav_lens) \<and>
      GREEDY_SEARCHER \<notin>
        set (map callee_of (new_calls w (snd (compute_forward P (ids, wavs, wav_lens) y stage ip w))))) \<and>
   (stage \<noteq> ''valid'' \<and> stage \<noteq> ''test'' \<longrightarrow>
      (\<exists>x h.
          fst (compute_forward P (ids, wavs, wav_lens) y stage ip w)
            = Three (log_softmax P (ctc_lin P (model (state w)) x ip))
                (log_softmax P (seq_lin P (model (state w)) h ip)) wav_lens) \<and>
      GREEDY_SEARCHER \<notin>
        set (map callee_of (new_calls w (snd (compute_forward P (ids, wavs, wav_lens) y stage ip w)))) \<and>
      BEAM_SEARCHER \<notin>
        set (map callee_of (new_calls w (snd (compute_forward P (ids, wavs, wav_lens) y stage ip w)))))"
proof (intro conjI impI)
  assume v: "stage = ''valid''"
  show "\<exists>x h.
          fst (compute_forward P (ids, wavs, wav_lens) y stage ip w)
            = Four (log_softmax P (ctc_lin P (model (state w)) x ip))
                (log_softmax P (seq_lin P (model (state w)) h ip)) wav_lens
                (fst (greedy_searcher P (model (state w)) x wav_lens)) \<and>
          last (new_calls w (snd (compute_forward P (ids, wavs, wav_lens) y stage ip w)))
            = Greedy_searcher x wav_lens"
    unfolding v compute_forward_eq by (simp add: Let_def new_calls_def) blast
  show "BEAM_SEARCHER \<notin>
        set (map callee_of (new_calls w (snd (compute_forward P (ids, wavs, wav_lens) y stage ip w))))"
    unfolding compute_forward_callees v
    by (simp add: forward_callees_def split: option.splits)
next
  assume t: "stage = ''test''"
  show "\<exists>x h.
          fst (compute_forward P (ids, wavs, wav_lens) y stage ip w)
            = Four (log_softmax P (ctc_lin P (model (state w)) x ip))
                (log_softmax P (seq_lin P (model (state w)) h ip)) wav_lens
                (fst (beam_searcher P (model (state w)) x wav_lens)) \<and>
          last (new_calls w (snd (compute_forward P (ids, wavs, wav_lens) y stage ip w)))
            = Beam_searcher x wav_lens"
    unfolding t compute_forward_eq by (simp add: Let_def new_calls_def) blast
  show "GREEDY_SEARCHER \<notin>
        set (map callee_of (new_calls w (snd (compute_forward P (ids, wavs, wav_lens) y stage ip w))))"
    unfolding compute_forward_callees t
    by (simp add: forward_callees_def split: option.splits)
next
  assume o: "stage \<noteq> ''valid'' \<and> stage \<noteq> ''test''"
  then show "\<exists>x h.
          fst (compute_forward P (ids, wavs, wav_lens) y stage ip w)
            = Three (log_softmax P (ctc_lin P (model (state w)) x ip))
                (log_softmax P (seq_lin P (model (state w)) h ip)) wav_lens"
    unfolding compute_forward_eq by (simp add: Let_def) blast
  from o show "GREEDY_SEARCHER \<notin>
        set (map callee_of (new_calls w (snd (compute_forward P (ids, wavs, wav_lens) y stage ip w))))"
    unfolding compute_forward_callees
    by (simp add: forward_callees_def split: option.splits)
  from o show "BEAM_SEARCHER \<notin>
        set (map callee_of (new_calls w (snd (compute_forward P (ids, wavs, wav_lens) y stage ip w))))"
    unfolding compute_forward_callees
    by (simp add: forward_callees_def split: option.splits)
qed

theorem compute_forward_stages_witness:
  "''valid'' = ''valid'' \<and>
   fst (compute_forward demo_params demo_inputs demo_targets ''valid'' False demo_world)
     = Four 21 27 [1] [[0]] \<and>
   BEAM_SEARCHER \<notin> set (map callee_of (new_calls demo_world
     (snd (compute_forward demo_params demo_inputs demo_targets ''valid'' False demo_world)))) \<and>
   ''test'' = ''test'' \<and>
   fst (compute_forward demo_params demo_inputs demo_targets ''test'' False demo_world)
     = Four 21 27 [1] [[1]] \<and>
   GREEDY_SEARCHER \<notin> set (map callee_of (new_calls demo_world
     (snd (compute_forward demo_params demo_inputs demo_targets ''test'' False demo_world)))) \<and>
   (''dev'' \<noteq> ''valid'' \<and> ''dev'' \<noteq> ''test'') \<and>
   fst (compute_forward demo_params demo_inputs demo_targets ''dev'' False demo_world)
     = Three 21 27 [1] \<and>
   GREEDY_SEARCHER \<notin> set (map callee_of (new_calls demo_world
     (snd (compute_forward demo_params demo_inputs demo_targets ''dev'' False demo_world)))) \<and>
   BEAM_SEARCHER \<notin> set (map callee_of (new_calls demo_world
     (snd (compute_forward demo_params demo_inputs demo_targets ''dev'' False demo_world))))"
proof -
  note v = compute_forward_stages [where stage = "''valid''" and P = demo_params
      and ids = "[''utt1'']" and wavs = 5 and wav_lens = "[1]" and y = demo_targets
      and ip = False and w = demo_world, folded demo_inputs_def]
  note t = compute_forward_stages [where stage = "''test''" and P = demo_params
      and ids = "[''utt1'']" and wavs = 5 and wav_lens = "[1]" and y = demo_targets
      and ip = False and w = demo_world, folded demo_inputs_def]
  note d = compute_forward_stages [where stage = "''dev''" and P = demo_params
      and ids = "[''utt1'']" and wavs = 5 and wav_lens = "[1]" and y = demo_targets
      and ip = False and w = demo_world, folded demo_inputs_def]
  have hv: "''valid'' = ''valid''" and ht: "''test'' = ''test''"
    and hd: "''dev'' \<noteq> ''valid'' \<and> ''dev'' \<noteq> ''test''"
    by simp_all
  from v hv have 1: "BEAM_SEARCHER \<notin> set (map callee_of (new_calls demo_world
     (snd (compute_forward demo_params demo_inputs demo_targets ''valid'' False demo_world))))"
    by blast
  from t ht have 2: "GREEDY_SEARCHER \<notin> set (map callee_of (new_calls demo_world
     (snd (compute_forward demo_params demo_inputs demo_targets ''test'' False demo_world))))"
    by blast
  from d hd have 3: "GREEDY_SEARCHER \<notin> set (map callee_of (new_calls demo_world
     (snd (compute_forward demo_params demo_inputs demo_targets ''dev'' False demo_world))))"
    and 4: "BEAM_SEARCHER \<notin> set (map callee_of (new_calls demo_world
     (snd (compute_forward demo_params demo_inputs demo_targets ''dev'' False demo_world))))"
    by blast+
  from 1 2 3 4 hv ht hd show ?thesis
    by (simp only: demo_forward fst_conv simp_thms)
qed

text \<open>
  C10. For every stage string other than \<^verbatim>\<open>valid\<close> and \<^verbatim>\<open>test\<close> the forward pass does
  exactly what it does at stage \<^verbatim>\<open>train\<close>: the same result, the same final state and
  the same log, and the result is the tuple of three components without hypotheses.
  The forward pass has no branch that rejects a stage; the witness runs it at the
  stages \<^verbatim>\<open>Train\<close> and the empty string.
\<close>

theorem compute_forward_other_stage:
  assumes "stage \<noteq> ''valid''" and "stage \<noteq> ''test''"
  shows "compute_forward P x y stage ip w = compute_forward P x y ''train'' ip w \<and>
         (\<exists>p_ctc p_seq. fst (compute_forward P x y stage ip w) = Three p_ctc p_seq (snd (snd x))) \<and>
         map callee_of (new_calls w (snd (compute_forward P x y stage ip w)))
           = forward_callees P ''train''"
proof -
  obtain ids wavs wav_lens where x: "x = (ids, wavs, wav_lens)"
    by (cases x) auto
  from assms have 1: "compute_forward P x y stage ip w = compute_forward P x y ''train'' ip w"
    unfolding x compute_forward_eq by simp
  have 2: "\<exists>p_ctc p_seq. fst (compute_forward P x y ''train'' ip w) = Three p_ctc p_seq (snd (snd x))"
    unfolding x compute_forward_eq by (simp add: Let_def)
  from 1 2 show ?thesis
    by (simp add: compute_forward_callees)
qed

theorem compute_forward_other_stage_witness:
  "''Train'' \<noteq> ''valid'' \<and> ''Train'' \<noteq> ''test'' \<and>
   compute_forward demo_params demo_inputs demo_targets ''Train'' False demo_world
     = compute_forward demo_params demo_inputs demo_targets ''train'' False demo_world \<and>
   fst (compute_forward demo_params demo_inputs demo_targets ''train'' False demo_world)
     = Three 21 27 [1] \<and>
   '''' \<noteq> ''valid'' \<and> '''' \<noteq> ''test'' \<and>
   compute_forward demo_params demo_inputs demo_targets '''' False demo_world
     = compute_forward demo_params demo_inputs demo_targets ''train'' False demo_world"
proof -
  have a: "''Train'' \<noteq> ''valid''" and b: "''Train'' \<noteq> ''test''"
    and c: "'''' \<noteq> ''valid''" and d: "'''' \<noteq> ''test''"
    by simp_all
  from compute_forward_other_stage [OF a b, of demo_params demo_inputs demo_targets False demo_world]
    compute_forward_other_stage [OF c d, of demo_params demo_inputs demo_targets False demo_world]
    a b c d
  show ?thesis by (simp add: demo_forward)
qed

subsection \<open>The order of the acoustic path\<close>

text \<open>
  The augmentation works on waveforms: when there is one it is the first call of the
  forward pass, before the feature extraction, and never after it. On the small
  configuration, which has an augmentation, feature extraction does not come first.
\<close>

theorem acoustic_path_order_counterexample:
  "map callee_of (new_calls demo_world
      (snd (compute_forward demo_params demo_inputs demo_targets ''train'' False demo_world)))
     = [AUGMENTATION, COMPUTE_FEATURES, NORMALIZE, ENC, CTC_LIN, LOG_SOFTMAX,
        PREPEND_BOS_TOKEN, EMB, DEC, SEQ_LIN, LOG_SOFTMAX] \<and>
   \<not> precedes COMPUTE_FEATURES AUGMENTATION
      (map callee_of (new_calls demo_world
        (snd (compute_forward demo_params demo_inputs demo_targets ''train'' False demo_world))))"
  by (simp add: demo_forward new_calls_def demo_world_sel)

text \<open>
  C4, as amended. For every input batch and every stage the forward pass begins with
  the augmentation if there is one, then feature extraction, then normalization, then
  the encoder, then the CTC projection.
\<close>

theorem acoustic_path_order:
  "take (length (case augmentation P of None \<Rightarrow> [] | Some aug \<Rightarrow> [AUGMENTATION]) + 4)
     (map callee_of (new_calls w (snd (compute_forward P x y stage ip w))))
   = (case augmentation P of None \<Rightarrow> [] | Some aug \<Rightarrow> [AUGMENTATION]) @
     [COMPUTE_FEATURES, NORMALIZE, ENC, CTC_LIN]"
  unfolding compute_forward_callees
  by (simp add: forward_callees_def split: option.splits)

theorem acoustic_path_order_witness:
  "take 5 (map callee_of (new_calls demo_world
      (snd (compute_forward demo_params demo_inputs demo_targets ''test'' False demo_world))))
     = [AUGMENTATION, COMPUTE_FEATURES, NORMALIZE, ENC, CTC_LIN] \<and>
   take 4 (map callee_of (new_calls demo_world
      (snd (compute_forward (demo_params\<lparr>augmentation := None\<rparr>) demo_inputs demo_targets
             ''test'' False demo_world))))
     = [COMPUTE_FEATURES, NORMALIZE, ENC, CTC_LIN]"
  using acoustic_path_order [of demo_params demo_world demo_inputs demo_targets "''test''" False]
    acoustic_path_order [of "demo_params\<lparr>augmentation := None\<rparr>" demo_world demo_inputs
      demo_targets "''test''" False]
  by (simp add: demo_params_sel)

text \<open>
  C9. With an augmentation in the configuration, the forward pass at any stage first
  calls it on the input waveforms, their lengths and \<^verbatim>\<open>init_params\<close>, and feature
  extraction receives what it returns. Without one, the first call is the feature
  extraction on the input waveforms themselves, and no augmentation is called.
\<close>

theorem augmentation_every_stage:
  "(augmentation P = Some aug \<longrightarrow>
      take 2 (new_calls w (snd (compute_forward P (ids, wavs, wav_lens) y stage ip w)))
        = [Augmentation wavs wav_lens ip,
           Compute_features (aug (model (state w)) wavs wav_lens ip) ip]) \<and>
   (augmentation P = None \<longrightarrow>
      take 1 (new_calls w (snd (compute_forward P (ids, wavs, wav_lens) y stage ip w)))
        = [Compute_features wavs ip] \<and>
      AUGMENTATION \<notin>
        set (map callee_of (new_calls w (snd (compute_forward P (ids, wavs, wav_lens) y stage ip w)))))"
proof (intro conjI impI)
  assume "augmentation P = Some aug"
  then show "take 2 (new_calls w (snd (compute_forward P (ids, wavs, wav_lens) y stage ip w)))
        = [Augmentation wavs wav_lens ip,
           Compute_features (aug (model (state w)) wavs wav_lens ip) ip]"
    unfolding compute_forward_eq by (simp add: Let_def new_calls_def)
next
  assume n: "augmentation P = None"
  then show "take 1 (new_calls w (snd (compute_forward P (ids, wavs, wav_lens) y stage ip w)))
        = [Compute_features wavs ip]"
    unfolding compute_forward_eq by (simp add: Let_def new_calls_def)
  from n show "AUGMENTATION \<notin>
        set (map callee_of (new_calls w (snd (compute_forward P (ids, wavs, wav_lens) y stage ip w))))"
    unfolding compute_forward_callees by (simp add: forward_callees_def)
qed

theorem augmentation_every_stage_witness:
  "augmentation demo_params = Some (\<lambda>m wavs wav_lens init_params. wavs + 1) \<and>
   take 2 (new_calls demo_world
     (snd (compute_forward demo_params demo_inputs demo_targets ''train'' False demo_world)))
     = [Augmentation 5 [1] False, Compute_features 6 False] \<and>
   take 2 (new_calls demo_world
     (snd (compute_forward demo_params demo_inputs demo_targets ''valid'' False demo_world)))
     = [Augmentation 5 [1] False, Compute_features 6 False] \<and>
   take 2 (new_calls demo_world
     (snd (compute_forward demo_params demo_inputs demo_targets ''test'' False demo_world)))
     = [Augmentation 5 [1] False, Compute_features 6 False] \<and>
   augmentation (demo_params\<lparr>augmentation := None\<rparr>) = None \<and>
   take 1 (new_calls demo_world
     (snd (compute_forward (demo_params\<lparr>augmentation := None\<rparr>) demo_inputs demo_targets
            ''valid'' False demo_world)))
     = [Compute_features 5 False] \<and>
   AUGMENTATION \<notin> set (map callee_of (new_calls demo_world
     (snd (compute_forward (demo_params\<lparr>augmentation := None\<rparr>) demo_inputs demo_targets
            ''valid'' False demo_world))))"
proof -
  let ?aug = "\<lambda>(m::nat) (wavs::nat) (wav_lens::lens) (init_params::bool). wavs + 1"
  have a: "augmentation demo_params = Some ?aug"
    by (rule demo_params_sel)
  have n: "augmentation (demo_params\<lparr>augmentation := None\<rparr>) = None"
    by simp
  note s = augmentation_every_stage [where P = demo_params and aug = ?aug
      and ids = "[''utt1'']" and wavs = 5 and wav_lens = "[1]" and y = demo_targets
      and ip = False and w = demo_world, folded demo_inputs_def]
  note t = augmentation_every_stage [where P = "demo_params\<lparr>augmentation := None\<rparr>"
      and aug = ?aug and stage = "''valid''"
      and ids = "[''utt1'']" and wavs = 5 and wav_lens = "[1]" and y = demo_targets
      and ip = False and w = demo_world, folded demo_inputs_def]
  from a s [of "''train''"] s [of "''valid''"] s [of "''test''"] n t
  show ?thesis
    by (simp add: demo_world_sel)
qed

subsection \<open>The objectives\<close>

lemma compute_objectives_frame:
  "state (snd (compute_objectives P predictions targets stage w)) = state w \<and>
   grads (snd (compute_objectives P predictions targets stage w)) = grads w \<and>
   ckpts (snd (compute_objectives P predictions targets stage w)) = ckpts w \<and>
   clock (snd (compute_objectives P predictions targets stage w)) = clock w"
  by (simp add: compute_objectives_def record_call_def Let_def
      split: prod.splits option.splits sum.splits)

text \<open>
  The objectives return a loss when the predictions have the length the stage asks for
  (three components at stage \<^verbatim>\<open>train\<close>, four otherwise) and, outside training, the
  label dictionary has its entries; otherwise they raise.
\<close>

lemma compute_objectives_train_returns:
  "\<exists>loss. fst (compute_objectives P (Three p_ctc p_seq wav_lens) targets ''train'' w)
            = Inr (loss, Map.empty)"
  by (simp add: compute_objectives_def unpack_predictions_def Let_def split: prod.splits)

lemma compute_objectives_eval_returns:
  assumes "stage \<noteq> ''train''"
    and "label_dict P ''phn'' = Some d" and "d ''index2lab'' = Some ind2lab"
  shows "\<exists>loss details.
          fst (compute_objectives P (Four p_ctc p_seq wav_lens hyps) targets stage w)
            = Inr (loss, [''PER'' \<mapsto> Details details])"
  using assms
  by (auto simp add: compute_objectives_def unpack_predictions_def Let_def split: prod.splits)

text \<open>
  C1. Whenever \<^verbatim>\<open>compute_objectives\<close> returns a loss, at any stage and for any
  predictions and targets, that loss is
  \<^verbatim>\<open>ctc_weight * loss_ctc + (1 - ctc_weight) * loss_seq\<close>, where \<^verbatim>\<open>loss_ctc\<close> is the
  CTC cost of the CTC log-probabilities against the labels and \<^verbatim>\<open>loss_seq\<close> is the
  sequence cost of the sequence log-probabilities against the labels with the
  end-of-sequence token appended. With weight 1 the loss is the CTC cost alone, with
  weight 0 the sequence cost alone. Losses are reals here, so the arithmetic is exact.
\<close>

theorem compute_objectives_loss:
  assumes "fst (compute_objectives P predictions (ids, phns, phn_lens) stage w)
             = Inr (loss, stats)"
  shows "loss = ctc_weight P *
                  ctc_cost P (ctc_of predictions) phns (lens_of predictions) phn_lens
                + (1 - ctc_weight P) *
                  seq_cost P (seq_of predictions)
                    (append_eos_token P phns (abs_length phns phn_lens) (eos_index P))
                    (rel_length phns phn_lens) \<and>
         (ctc_weight P = 1 \<longrightarrow>
            loss = ctc_cost P (ctc_of predictions) phns (lens_of predictions) phn_lens) \<and>
         (ctc_weight P = 0 \<longrightarrow>
            loss = seq_cost P (seq_of predictions)
                    (append_eos_token P phns (abs_length phns phn_lens) (eos_index P))
                    (rel_length phns phn_lens))"
proof -
  let ?lc = "ctc_cost P (ctc_of predictions) phns (lens_of predictions) phn_lens"
  let ?ls = "seq_cost P (seq_of predictions)
               (append_eos_token P phns (abs_length phns phn_lens) (eos_index P))
               (rel_length phns phn_lens)"
  have "loss = ctc_weight P * ?lc + (1 - ctc_weight P) * ?ls"
  proof (cases predictions)
    case (Three p_ctc p_seq wav_lens)
    with assms show ?thesis
      by (cases "stage = ''train''")
        (simp_all add: compute_objectives_def unpack_predictions_def Let_def)
  next
    case (Four p_ctc p_seq wav_lens hyps)
    with assms show ?thesis
      by (cases "stage = ''train''")
        (simp_all add: compute_objectives_def unpack_predictions_def Let_def
          split: option.splits)
  qed
  then show ?thesis by simp
qed

theorem compute_objectives_loss_witness:
  "fst (compute_objectives (demo_params\<lparr>ctc_weight := 1\<rparr>) (Three 21 26 [1])
         ([''utt1''], demo_phns, [2 / 3]) ''train'' demo_world) = Inr (2, Map.empty) \<and>
   fst (compute_objectives (demo_params\<lparr>ctc_weight := 0\<rparr>) (Four 21 26 [1] [[0]])
         ([''utt1''], demo_phns, [2 / 3]) ''valid'' demo_world)
     = Inr (6, [''PER'' \<mapsto> Details [1]]) \<and>
   ctc_weight (demo_params\<lparr>ctc_weight := 1\<rparr>) = 1 \<and>
   ctc_weight (demo_params\<lparr>ctc_weight := 0\<rparr>) = 0 \<and>
   2 = ctc_cost (demo_params\<lparr>ctc_weight := 1\<rparr>) 21 demo_phns [1] [2 / 3] \<and>
   6 = seq_cost (demo_params\<lparr>ctc_weight := 0\<rparr>) 26
     (append_eos_token (demo_params\<lparr>ctc_weight := 0\<rparr>) demo_phns
        (abs_length demo_phns [2 / 3]) (eos_index (demo_params\<lparr>ctc_weight := 0\<rparr>)))
     (rel_length demo_phns [2 / 3])"
proof -
  have a: "fst (compute_objectives (demo_params\<lparr>ctc_weight := 1\<rparr>) (Three 21 26 [1])
         ([''utt1''], demo_phns, [2 / 3]) ''train'' demo_world) = Inr (2, Map.empty)"
    by (simp add: compute_objectives_def unpack_predictions_def demo_params_sel Let_def)
  have b: "fst (compute_objectives (demo_params\<lparr>ctc_weight := 0\<rparr>) (Four 21 26 [1] [[0]])
         ([''utt1''], demo_phns, [2 / 3]) ''valid'' demo_world)
     = Inr (6, [''PER'' \<mapsto> Details [1]])"
    by (simp add: compute_objectives_def unpack_predictions_def demo_params_sel Let_def)
  have c1: "ctc_weight (demo_params\<lparr>ctc_weight := 1\<rparr>) = 1"
    and c0: "ctc_weight (demo_params\<lparr>ctc_weight := 0\<rparr>) = 0"
    by simp_all
  from compute_objectives_loss [OF a] c1
  have l1: "2 = ctc_cost (demo_params\<lparr>ctc_weight := 1\<rparr>)
                  (ctc_of (Three 21 26 [1] :: nat predictions))
                  demo_phns (lens_of (Three 21 26 [1] :: nat predictions)) [2 / 3]"
    by blast
  from compute_objectives_loss [OF b] c0
  have l0: "6 = seq_cost (demo_params\<lparr>ctc_weight := 0\<rparr>) (seq_of (Four 21 26 [1] [[0]] :: nat predictions))
     (append_eos_token (demo_params\<lparr>ctc_weight := 0\<rparr>) demo_phns
        (abs_length demo_phns [2 / 3]) (eos_index (demo_params\<lparr>ctc_weight := 0\<rparr>)))
     (rel_length demo_phns [2 / 3])"
    by blast
  from l1 have l1': "2 = ctc_cost (demo_params\<lparr>ctc_weight := 1\<rparr>) 21 demo_phns [1] [2 / 3]"
    by (simp only: predictions.sel)
  from l0 have l0': "6 = seq_cost (demo_params\<lparr>ctc_weight := 0\<rparr>) 26
     (append_eos_token (demo_params\<lparr>ctc_weight := 0\<rparr>) demo_phns
        (abs_length demo_phns [2 / 3]) (eos_index (demo_params\<lparr>ctc_weight := 0\<rparr>)))
     (rel_length demo_phns [2 / 3])"
    by (simp only: predictions.sel)
  from a b c1 c0 l1' l0' show ?thesis by (intro conjI)
qed

text \<open>The objectives in straight-line form, one equation for each way they can end.\<close>

lemma compute_objectives_mismatch:
  "compute_objectives P (Four p_ctc p_seq wav_lens hyps) targets ''train'' w
     = (Inl ValueError, w)"
  "stage \<noteq> ''train'' \<Longrightarrow>
   compute_objectives P (Three p_ctc p_seq wav_lens) targets stage w = (Inl ValueError, w)"
  by (simp_all add: compute_objectives_def unpack_predictions_def)

lemma compute_objectives_train:
  "compute_objectives P (Three p_ctc p_seq wav_lens) (ids, phns, phn_lens) ''train'' w =
    (Inr (weighted_loss P p_ctc p_seq wav_lens phns phn_lens, Map.empty),
     w\<lparr>calls := calls w @ cost_calls P p_ctc p_seq wav_lens phns phn_lens\<rparr>)"
  by (simp add: compute_objectives_def unpack_predictions_def Let_def record_call_def
      weighted_loss_def cost_calls_def)

lemma compute_objectives_eval:
  assumes "stage \<noteq> ''train''"
    and "label_dict P ''phn'' = Some d" and "d ''index2lab'' = Some ind2lab"
  shows "compute_objectives P (Four p_ctc p_seq wav_lens hyps) (ids, phns, phn_lens) stage w =
    (Inr (weighted_loss P p_ctc p_seq wav_lens phns phn_lens,
          [''PER'' \<mapsto> Details (per_details P ids phns phn_lens hyps ind2lab)]),
     w\<lparr>calls := calls w @ cost_calls P p_ctc p_seq wav_lens phns phn_lens @
                 scoring_calls P ids phns phn_lens hyps ind2lab\<rparr>)"
  using assms
  by (simp add: compute_objectives_def unpack_predictions_def Let_def record_call_def
      weighted_loss_def cost_calls_def scoring_calls_def per_details_def)

lemma compute_objectives_no_dict:
  assumes "stage \<noteq> ''train''"
    and "label_dict P ''phn'' = None \<or>
         (\<exists>d. label_dict P ''phn'' = Some d \<and> d ''index2lab'' = None)"
  shows "\<exists>k. compute_objectives P (Four p_ctc p_seq wav_lens hyps) (ids, phns, phn_lens) stage w =
    (Inl (KeyError k),
     w\<lparr>calls := calls w @ cost_calls P p_ctc p_seq wav_lens phns phn_lens\<rparr>)"
  using assms
  by (auto simp add: compute_objectives_def unpack_predictions_def Let_def record_call_def
      cost_calls_def)

text \<open>The collaborators the objectives can call, in order; a run calls a prefix of them.\<close>

lemma compute_objectives_callees:
  "map callee_of (new_calls w (snd (compute_objectives P predictions targets stage w)))
     \<in> {[], [APPEND_EOS_TOKEN, CTC_COST, SEQ_COST],
         [APPEND_EOS_TOKEN, CTC_COST, SEQ_COST, CONVERT_INDEX_TO_LAB, UNDO_PADDING,
          CONVERT_INDEX_TO_LAB, WER_DETAILS_FOR_BATCH]}"
proof -
  obtain ids phns phn_lens where t: "targets = (ids, phns, phn_lens)"
    by (cases targets) auto
  show ?thesis
  proof (cases "stage = ''train''")
    case True
    then show ?thesis
      unfolding t
      by (cases predictions)
        (simp_all add: compute_objectives_train compute_objectives_mismatch new_calls_def
          cost_calls_def)
  next
    case False
    show ?thesis
    proof (cases predictions)
      case (Three p_ctc p_seq wav_lens)
      with False show ?thesis
        by (simp add: compute_objectives_mismatch new_calls_def)
    next
      case (Four p_ctc p_seq wav_lens hyps)
      show ?thesis
      proof (cases "\<exists>d ind2lab. label_dict P ''phn'' = Some d \<and> d ''index2lab'' = Some ind2lab")
        case True
        then obtain d ind2lab where "label_dict P ''phn'' = Some d" "d ''index2lab'' = Some ind2lab"
          by blast
        from compute_objectives_eval [OF False this]
        show ?thesis
          unfolding t Four
          by (simp add: new_calls_def cost_calls_def scoring_calls_def)
      next
        case no: False
        then have "label_dict P ''phn'' = None \<or>
            (\<exists>d. label_dict P ''phn'' = Some d \<and> d ''index2lab'' = None)"
          by (cases "label_dict P ''phn''") auto
        from compute_objectives_no_dict [OF False this, of p_ctc p_seq wav_lens hyps ids phns phn_lens w]
        show ?thesis
          unfolding t Four
          by (auto simp add: new_calls_def cost_calls_def)
      qed
    qed
  qed
qed

lemma compute_objectives_new_calls:
  "calls (snd (compute_objectives P predictions targets stage w))
     = calls w @ new_calls w (snd (compute_objectives P predictions targets stage w))"
  by (simp add: compute_objectives_def record_call_def Let_def new_calls_def
      split: prod.splits option.splits sum.splits)

subsection \<open>The length passed to the sequence cost\<close>

text \<open>Rounding leaves a whole number alone, and rounds a half to the even neighbour.\<close>

lemma torch_round_of_nat: "torch_round (real n) = real n"
  by (simp add: torch_round_def)

lemma torch_round_half_even:
  "torch_round (5 / 2) = 2" "torch_round (7 / 2) = 4" "torch_round (7 / 3) = 2"
  by (simp_all add: torch_round_def Let_def)

lemma compute_objectives_cost_calls:
  assumes "unpack_predictions predictions stage = Inr u"
  shows "take 3 (new_calls w (snd (compute_objectives P predictions (ids, phns, phn_lens) stage w)))
          = cost_calls P (ctc_of predictions) (seq_of predictions) (lens_of predictions)
              phns phn_lens"
proof (cases "stage = ''train''")
  case True
  with assms obtain p_ctc p_seq wav_lens where "predictions = Three p_ctc p_seq wav_lens"
    by (cases predictions) (simp_all add: unpack_predictions_def)
  with True show ?thesis
    by (simp add: compute_objectives_train new_calls_def cost_calls_def)
next
  case False
  with assms obtain p_ctc p_seq wav_lens hyps where
    four: "predictions = Four p_ctc p_seq wav_lens hyps"
    by (cases predictions) (simp_all add: unpack_predictions_def)
  show ?thesis
  proof (cases "\<exists>d ind2lab. label_dict P ''phn'' = Some d \<and> d ''index2lab'' = Some ind2lab")
    case True
    then obtain d ind2lab where "label_dict P ''phn'' = Some d" "d ''index2lab'' = Some ind2lab"
      by blast
    from compute_objectives_eval [OF False this] show ?thesis
      unfolding four by (simp add: new_calls_def cost_calls_def)
  next
    case no: False
    then have "label_dict P ''phn'' = None \<or>
        (\<exists>d. label_dict P ''phn'' = Some d \<and> d ''index2lab'' = None)"
      by (cases "label_dict P ''phn''") auto
    from compute_objectives_no_dict [OF False this, of p_ctc p_seq wav_lens hyps ids phns phn_lens w]
    show ?thesis
      unfolding four by (auto simp add: new_calls_def cost_calls_def)
  qed
qed

text \<open>
  C8. When the predictions fit the stage, the objectives first call
  \<^verbatim>\<open>append_eos_token\<close> with the absolute lengths \<^verbatim>\<open>round(phn_lens * phns.shape[1])\<close>,
  then the CTC cost, then the sequence cost on the labels with the end-of-sequence
  token appended, and the length passed to the sequence cost is
  \<^verbatim>\<open>(round(phn_lens * phns.shape[1]) + 1) / phns.shape[1]\<close>. For a positive padded
  width, multiplying that length by the width gives the absolute length plus one; in
  particular, for relative lengths \<open>n / width\<close> of sequences of \<open>n\<close> labels it gives
  \<open>n + 1\<close>. Lengths are reals here, so the arithmetic is exact.
\<close>

theorem seq_cost_length:
  assumes "unpack_predictions predictions stage = Inr u"
  shows "take 3 (new_calls w
            (snd (compute_objectives P predictions (ids, phns, phn_lens) stage w))) =
           [Append_eos_token phns (abs_length phns phn_lens) (eos_index P),
            Ctc_cost (ctc_of predictions) phns (lens_of predictions) phn_lens,
            Seq_cost (seq_of predictions)
              (append_eos_token P phns (abs_length phns phn_lens) (eos_index P))
              (rel_length phns phn_lens)] \<and>
         rel_length phns phn_lens =
           map (\<lambda>l. (torch_round (l * real (shape1 phns)) + 1) / real (shape1 phns)) phn_lens \<and>
         (0 < shape1 phns \<longrightarrow>
            map (\<lambda>r. r * real (shape1 phns)) (rel_length phns phn_lens)
              = map (\<lambda>a. a + 1) (abs_length phns phn_lens)) \<and>
         (0 < shape1 phns \<longrightarrow>
            (\<forall>ns. phn_lens = map (\<lambda>n. real n / real (shape1 phns)) ns \<longrightarrow>
               map (\<lambda>r. r * real (shape1 phns)) (rel_length phns phn_lens)
                 = map (\<lambda>n. real n + 1) ns))"
proof (intro conjI impI allI)
  from compute_objectives_cost_calls [OF assms]
  show "take 3 (new_calls w
            (snd (compute_objectives P predictions (ids, phns, phn_lens) stage w))) =
           [Append_eos_token phns (abs_length phns phn_lens) (eos_index P),
            Ctc_cost (ctc_of predictions) phns (lens_of predictions) phn_lens,
            Seq_cost (seq_of predictions)
              (append_eos_token P phns (abs_length phns phn_lens) (eos_index P))
              (rel_length phns phn_lens)]"
    by (simp add: cost_calls_def)
  show "rel_length phns phn_lens =
           map (\<lambda>l. (torch_round (l * real (shape1 phns)) + 1) / real (shape1 phns)) phn_lens"
    by (simp add: rel_length_def abs_length_def)
next
  assume "0 < shape1 phns"
  then show "map (\<lambda>r. r * real (shape1 phns)) (rel_length phns phn_lens)
              = map (\<lambda>a. a + 1) (abs_length phns phn_lens)"
    by (simp add: rel_length_def abs_length_def)
next
  fix ns
  assume pos: "0 < shape1 phns"
    and rel: "phn_lens = map (\<lambda>n. real n / real (shape1 phns)) ns"
  from pos show "map (\<lambda>r. r * real (shape1 phns)) (rel_length phns phn_lens)
                 = map (\<lambda>n. real n + 1) ns"
    unfolding rel
    by (simp add: rel_length_def abs_length_def torch_round_of_nat)
qed

theorem seq_cost_length_witness:
  "unpack_predictions (Three 21 27 [1] :: nat predictions) ''train''
     = Inr (21, 27, [1], None) \<and>
   0 < shape1 demo_phns \<and>
   [2 / 3] = map (\<lambda>n. real n / real (shape1 demo_phns)) [2] \<and>
   abs_length demo_phns [2 / 3] = [2] \<and>
   rel_length demo_phns [2 / 3] = [1] \<and>
   map (\<lambda>r. r * real (shape1 demo_phns)) (rel_length demo_phns [2 / 3]) = [3] \<and>
   take 3 (new_calls demo_world
      (snd (compute_objectives demo_params (Three 21 27 [1]) ([''utt1''], demo_phns, [2 / 3])
              ''train'' demo_world))) =
     [Append_eos_token demo_phns [2] 1,
      Ctc_cost 21 demo_phns [1] [2 / 3],
      Seq_cost 27 \<lparr>rows = [[2, 3, 0, 1]], shape1 = 4\<rparr> [1]]"
proof -
  have u: "unpack_predictions (Three 21 27 [1] :: nat predictions) ''train''
             = Inr (21, 27, [1], None)"
    by (simp add: unpack_predictions_def)
  have pos: "0 < shape1 demo_phns"
    by (simp add: demo_phns_def)
  have rel: "[2 / 3] = map (\<lambda>n. real n / real (shape1 demo_phns)) [2]"
    by (simp add: demo_phns_def)
  have a: "abs_length demo_phns [2 / 3] = [2]"
    by (simp add: abs_length_def torch_round_def demo_phns_def Let_def)
  have r: "rel_length demo_phns [2 / 3] = [1]"
    by (simp add: rel_length_def a) (simp add: demo_phns_def)
  note t = seq_cost_length [OF u, of demo_world demo_params "[''utt1'']" demo_phns "[2 / 3]"]
  from t [THEN conjunct1] have 1: "take 3 (new_calls demo_world
      (snd (compute_objectives demo_params (Three 21 27 [1]) ([''utt1''], demo_phns, [2 / 3])
              ''train'' demo_world))) =
     [Append_eos_token demo_phns [2] 1,
      Ctc_cost 21 demo_phns [1] [2 / 3],
      Seq_cost 27 \<lparr>rows = [[2, 3, 0, 1]], shape1 = 4\<rparr> [1]]"
    by (simp add: a r demo_params_sel demo_phns_sel)
  note 2 = t [THEN conjunct2, THEN conjunct2, THEN conjunct2, rule_format, OF pos rel]
  from u pos rel a r 1 2 show ?thesis
    by simp
qed

subsection \<open>One training step\<close>

lemma compute_forward_shape:
  "stage \<noteq> ''valid'' \<Longrightarrow> stage \<noteq> ''test'' \<Longrightarrow>
   \<exists>p_ctc p_seq. fst (compute_forward P (ids, wavs, wav_lens) y stage ip w)
                   = Three p_ctc p_seq wav_lens"
  "stage = ''valid'' \<or> stage = ''test'' \<Longrightarrow>
   \<exists>p_ctc p_seq hyps. fst (compute_forward P (ids, wavs, wav_lens) y stage ip w)
                        = Four p_ctc p_seq wav_lens hyps"
  unfolding compute_forward_eq by (auto simp add: Let_def)

lemma forward_callees_no_update:
  "BACKWARD \<notin> set (forward_callees P stage)"
  "OPTIMIZER_STEP \<notin> set (forward_callees P stage)"
  "OPTIMIZER_ZERO_GRAD \<notin> set (forward_callees P stage)"
  by (simp_all add: forward_callees_def split: option.splits)

text \<open>
  C3. For every batch, \<^verbatim>\<open>fit_batch\<close> calls, in this order, the collaborators of the
  forward pass at stage \<^verbatim>\<open>train\<close>, those of the loss (end-of-sequence token, CTC cost,
  sequence cost), the gradient computation on that loss, the optimizer step and the
  gradient reset, and nothing else. The gradients it leaves are the reset of those the
  backward pass produced, and the weights and the optimizer state are those the step
  computed from them. It returns the statistics with the loss under \<^verbatim>\<open>loss\<close>;
  \<^verbatim>\<open>fit_batch\<close> has no stage parameter and always runs at stage \<^verbatim>\<open>train\<close>, so the
  statistics hold nothing else.
\<close>

theorem fit_batch_order:
  fixes P :: "('t, 'm, 'd) params" and w :: "('t, 'm) world"
  shows "\<exists>loss.
     fst (fit_batch P batch w) = Inr [''loss'' \<mapsto> Loss loss] \<and>
     fst (compute_objectives P
            (fst (compute_forward P (fst batch) (snd batch) ''train'' False w)) (snd batch)
            ''train'' (snd (compute_forward P (fst batch) (snd batch) ''train'' False w)))
       = Inr (loss, Map.empty) \<and>
     map callee_of (new_calls w (snd (fit_batch P batch w)))
       = forward_callees P ''train'' @
         [APPEND_EOS_TOKEN, CTC_COST, SEQ_COST, BACKWARD, OPTIMIZER_STEP, OPTIMIZER_ZERO_GRAD] \<and>
     (\<exists>cs. new_calls w (snd (fit_batch P batch w))
             = cs @ [Backward loss, Optimizer_step, Optimizer_zero_grad]) \<and>
     grads (snd (fit_batch P batch w))
       = optimizer_zero_grad P (backward P (model (state w)) loss (grads w)) \<and>
     (model (state (snd (fit_batch P batch w))), optimizer (state (snd (fit_batch P batch w))))
       = optimizer_step P (optimizer (state w)) (model (state w))
           (backward P (model (state w)) loss (grads w))"
proof -
  obtain ids wavs wav_lens ids' phns phn_lens where
    b: "batch = ((ids, wavs, wav_lens), (ids', phns, phn_lens))"
    by (cases batch) auto
  let ?x = "(ids, wavs, wav_lens)" and ?y = "(ids', phns, phn_lens)"
  obtain pred w1 where cf: "compute_forward P ?x ?y ''train'' False w = (pred, w1)"
    by (cases "compute_forward P ?x ?y ''train'' False w") auto
  from compute_forward_shape(1) [of "''train''" P ids wavs wav_lens ?y False w] cf
  obtain p_ctc p_seq where pred: "pred = Three p_ctc p_seq wav_lens"
    by auto
  let ?L = "weighted_loss P p_ctc p_seq wav_lens phns phn_lens"
  let ?cc = "cost_calls P p_ctc p_seq wav_lens phns phn_lens"
  have co: "compute_objectives P pred ?y ''train'' w1
              = (Inr (?L, Map.empty), w1\<lparr>calls := calls w1 @ ?cc\<rparr>)"
    unfolding pred by (rule compute_objectives_train)
  from compute_forward_frame [of P ?x ?y "''train''" False w]
  have fr: "model (state w1) = model (state w)" "optimizer (state w1) = optimizer (state w)"
    "grads w1 = grads w"
    by (simp_all add: cf)
  from compute_forward_new_calls [of P ?x ?y "''train''" False w]
  have c1: "calls w1 = calls w @ new_calls w w1"
    by (simp add: cf)
  from compute_forward_callees [of w P ?x ?y "''train''" False]
  have k1: "map callee_of (new_calls w w1) = forward_callees P ''train''"
    by (simp add: cf)
  have r: "fst (fit_batch P batch w) = Inr [''loss'' \<mapsto> Loss ?L]"
    by (simp add: fit_batch_def b cf co Let_def split_beta)
  have c: "calls (snd (fit_batch P batch w))
             = calls w @ (new_calls w w1 @ ?cc) @
               [Backward ?L, Optimizer_step, Optimizer_zero_grad]"
    by (simp add: fit_batch_def b cf co Let_def split_beta record_call_def c1)
  then have n: "new_calls w (snd (fit_batch P batch w))
             = (new_calls w w1 @ ?cc) @ [Backward ?L, Optimizer_step, Optimizer_zero_grad]"
    by (rule new_calls_append)
  have g: "grads (snd (fit_batch P batch w))
       = optimizer_zero_grad P (backward P (model (state w)) ?L (grads w))"
    by (simp add: fit_batch_def b cf co Let_def split_beta record_call_def fr)
  have m: "(model (state (snd (fit_batch P batch w))),
            optimizer (state (snd (fit_batch P batch w))))
       = optimizer_step P (optimizer (state w)) (model (state w))
           (backward P (model (state w)) ?L (grads w))"
    by (simp add: fit_batch_def b cf co Let_def split_beta record_call_def fr)
  have k: "map callee_of (new_calls w (snd (fit_batch P batch w)))
       = forward_callees P ''train'' @
         [APPEND_EOS_TOKEN, CTC_COST, SEQ_COST, BACKWARD, OPTIMIZER_STEP, OPTIMIZER_ZERO_GRAD]"
    unfolding n by (simp add: k1 cost_calls_def)
  have o: "fst (compute_objectives P
            (fst (compute_forward P (fst batch) (snd batch) ''train'' False w)) (snd batch)
            ''train'' (snd (compute_forward P (fst batch) (snd batch) ''train'' False w)))
       = Inr (?L, Map.empty)"
    by (simp add: b cf co)
  from r o k n g m show ?thesis
    by blast
qed

theorem fit_batch_order_witness:
  "fst (fit_batch demo_params (demo_inputs, demo_targets) demo_world)
     = Inr [''loss'' \<mapsto> Loss 5] \<and>
   map callee_of (new_calls demo_world
      (snd (fit_batch demo_params (demo_inputs, demo_targets) demo_world)))
     = [AUGMENTATION, COMPUTE_FEATURES, NORMALIZE, ENC, CTC_LIN, LOG_SOFTMAX,
        PREPEND_BOS_TOKEN, EMB, DEC, SEQ_LIN, LOG_SOFTMAX,
        APPEND_EOS_TOKEN, CTC_COST, SEQ_COST, BACKWARD, OPTIMIZER_STEP, OPTIMIZER_ZERO_GRAD]"
proof -
  from fit_batch_order [of demo_params "(demo_inputs, demo_targets)" demo_world]
  obtain loss where
    r: "fst (fit_batch demo_params (demo_inputs, demo_targets) demo_world)
          = Inr [''loss'' \<mapsto> Loss loss]"
    and o: "fst (compute_objectives demo_params
            (fst (compute_forward demo_params demo_inputs demo_targets ''train'' False demo_world))
            demo_targets ''train''
            (snd (compute_forward demo_params demo_inputs demo_targets ''train'' False demo_world)))
       = Inr (loss, Map.empty)"
    and k: "map callee_of (new_calls demo_world
              (snd (fit_batch demo_params (demo_inputs, demo_targets) demo_world)))
       = forward_callees demo_params ''train'' @
         [APPEND_EOS_TOKEN, CTC_COST, SEQ_COST, BACKWARD, OPTIMIZER_STEP, OPTIMIZER_ZERO_GRAD]"
    by auto
  from o [unfolded demo_forward fst_conv snd_conv] have "loss = 5"
    by (simp add: demo_targets_def compute_objectives_train weighted_loss_def
        demo_params_sel)
  with r k show ?thesis
    by (simp add: forward_callees_def demo_params_sel)
qed

subsection \<open>One evaluation step\<close>

text \<open>
  An evaluation step is the forward pass followed by the objectives; it returns what the
  objectives return, with the loss added to the statistics.
\<close>

lemma evaluate_batch_eq:
  assumes "compute_forward P inputs targets stage False w = (pred, w1)"
    and "compute_objectives P pred targets stage w1 = (r, w2)"
  shows "evaluate_batch P (inputs, targets) stage w =
          ((case r of Inl e \<Rightarrow> Inl e
            | Inr (loss, stats) \<Rightarrow> Inr (stats(''loss'' \<mapsto> Loss loss))), w2)"
  using assms
  by (simp add: evaluate_batch_def split: sum.splits prod.splits)

lemma new_calls_trans:
  assumes "calls w1 = calls w @ new_calls w w1" and "calls w2 = calls w1 @ new_calls w1 w2"
  shows "new_calls w w2 = new_calls w w1 @ new_calls w1 w2"
proof -
  from assms have "calls w2 = calls w @ (new_calls w w1 @ new_calls w1 w2)"
    by simp
  then show ?thesis
    by (rule new_calls_append)
qed

text \<open>
  The stages of the script are train, valid and test. A string outside them is not a
  stage: the forward pass falls through to its three components while the objectives,
  not being at stage train, unpack four, so the run stops at the unpacking.
\<close>

lemma demo_evaluate_dev:
  "fst (evaluate_batch demo_params (demo_inputs, demo_targets) ''dev'' demo_world)
     = Inl ValueError \<and>
   map callee_of (new_calls demo_world
      (snd (evaluate_batch demo_params (demo_inputs, demo_targets) ''dev'' demo_world)))
     = [AUGMENTATION, COMPUTE_FEATURES, NORMALIZE, ENC, CTC_LIN, LOG_SOFTMAX,
        PREPEND_BOS_TOKEN, EMB, DEC, SEQ_LIN, LOG_SOFTMAX] \<and>
   CTC_COST \<notin> set (map callee_of (new_calls demo_world
      (snd (evaluate_batch demo_params (demo_inputs, demo_targets) ''dev'' demo_world)))) \<and>
   SEQ_COST \<notin> set (map callee_of (new_calls demo_world
      (snd (evaluate_batch demo_params (demo_inputs, demo_targets) ''dev'' demo_world))))"
proof -
  have "evaluate_batch demo_params (demo_inputs, demo_targets) ''dev'' demo_world =
    (Inl ValueError,
     demo_world\<lparr>state := (state demo_world)\<lparr>normalizer := 5\<rparr>,
       calls := [Augmentation 5 [1] False, Compute_features 6 False, Normalize 12 [1],
                 Enc 15 False, Ctc_lin 16 False, Log_softmax 21,
                 Prepend_bos_token demo_phns 0,
                 Emb \<lparr>rows = [[0, 2, 3, 0]], shape1 = 4\<rparr> False,
                 Dec 4 16 [1] False, Seq_lin 20 False, Log_softmax 27]\<rparr>)"
    by (simp add: evaluate_batch_def demo_forward compute_objectives_mismatch)
  then show ?thesis
    by (simp add: new_calls_def demo_world_sel)
qed

text \<open>What an evaluation step does at any stage string.\<close>

lemma evaluate_batch_facts:
  fixes P :: "('t, 'm, 'd) params" and w :: "('t, 'm) world"
  shows
  "model (state (snd (evaluate_batch P batch stage w))) = model (state w) \<and>
   optimizer (state (snd (evaluate_batch P batch stage w))) = optimizer (state w) \<and>
   grads (snd (evaluate_batch P batch stage w)) = grads w \<and>
   BACKWARD \<notin> set (map callee_of (new_calls w (snd (evaluate_batch P batch stage w)))) \<and>
   OPTIMIZER_STEP \<notin> set (map callee_of (new_calls w (snd (evaluate_batch P batch stage w)))) \<and>
   OPTIMIZER_ZERO_GRAD \<notin>
     set (map callee_of (new_calls w (snd (evaluate_batch P batch stage w)))) \<and>
   take (length (forward_callees P stage))
     (map callee_of (new_calls w (snd (evaluate_batch P batch stage w))))
     = forward_callees P stage \<and>
   (stage \<in> {''train'', ''valid'', ''test''} \<longrightarrow>
      take 3 (drop (length (forward_callees P stage))
        (map callee_of (new_calls w (snd (evaluate_batch P batch stage w)))))
        = [APPEND_EOS_TOKEN, CTC_COST, SEQ_COST]) \<and>
   (stage \<notin> {''train'', ''valid'', ''test''} \<longrightarrow>
      fst (evaluate_batch P batch stage w) = Inl ValueError \<and>
      map callee_of (new_calls w (snd (evaluate_batch P batch stage w)))
        = forward_callees P stage) \<and>
   (\<forall>stats. fst (evaluate_batch P batch stage w) = Inr stats \<longrightarrow>
      (\<exists>loss. stats ''loss'' = Some (Loss loss)))"
proof -
  obtain ids wavs wav_lens ids' phns phn_lens where
    b: "batch = ((ids, wavs, wav_lens), (ids', phns, phn_lens))"
    by (cases batch) auto
  let ?x = "(ids, wavs, wav_lens)" and ?y = "(ids', phns, phn_lens)"
  obtain pred w1 where cf: "compute_forward P ?x ?y stage False w = (pred, w1)"
    by (cases "compute_forward P ?x ?y stage False w") auto
  obtain r w2 where co: "compute_objectives P pred ?y stage w1 = (r, w2)"
    by (cases "compute_objectives P pred ?y stage w1") auto
  note eb = evaluate_batch_eq [OF cf co, folded b]
  have w2: "snd (evaluate_batch P batch stage w) = w2"
    by (simp add: eb)
  from compute_forward_frame [of P ?x ?y stage False w]
  have f1: "model (state w1) = model (state w)" "optimizer (state w1) = optimizer (state w)"
    "grads w1 = grads w"
    by (simp_all add: cf)
  from compute_objectives_frame [of P pred ?y stage w1]
  have f2: "state w2 = state w1" "grads w2 = grads w1"
    by (simp_all add: co)
  from compute_forward_new_calls [of P ?x ?y stage False w]
  have c1: "calls w1 = calls w @ new_calls w w1"
    by (simp add: cf)
  from compute_objectives_new_calls [of P pred ?y stage w1]
  have c2: "calls w2 = calls w1 @ new_calls w1 w2"
    by (simp add: co)
  from compute_forward_callees [of w P ?x ?y stage False]
  have k1: "map callee_of (new_calls w w1) = forward_callees P stage"
    by (simp add: cf)
  from compute_objectives_callees [of w1 P pred ?y stage]
  have k2: "map callee_of (new_calls w1 w2)
     \<in> {[], [APPEND_EOS_TOKEN, CTC_COST, SEQ_COST],
         [APPEND_EOS_TOKEN, CTC_COST, SEQ_COST, CONVERT_INDEX_TO_LAB, UNDO_PADDING,
          CONVERT_INDEX_TO_LAB, WER_DETAILS_FOR_BATCH]}"
    by (simp add: co)
  have k: "map callee_of (new_calls w w2)
             = forward_callees P stage @ map callee_of (new_calls w1 w2)"
    by (simp add: new_calls_trans [OF c1 c2] k1)
  have frame: "model (state w2) = model (state w)" "optimizer (state w2) = optimizer (state w)"
    "grads w2 = grads w"
    by (simp_all add: f1 f2)
  from k2 have no_update: "BACKWARD \<notin> set (map callee_of (new_calls w w2))"
    "OPTIMIZER_STEP \<notin> set (map callee_of (new_calls w w2))"
    "OPTIMIZER_ZERO_GRAD \<notin> set (map callee_of (new_calls w w2))"
    unfolding k by (auto simp add: forward_callees_no_update)
  have fwd: "take (length (forward_callees P stage)) (map callee_of (new_calls w w2))
               = forward_callees P stage"
    unfolding k by simp
  have known: "take 3 (drop (length (forward_callees P stage))
                  (map callee_of (new_calls w w2))) = [APPEND_EOS_TOKEN, CTC_COST, SEQ_COST]"
    if s: "stage \<in> {''train'', ''valid'', ''test''}"
  proof -
    have "\<exists>u. unpack_predictions pred stage = Inr u"
    proof (cases "stage = ''train''")
      case True
      from compute_forward_shape(1) [of stage P ids wavs wav_lens ?y False w] True cf
      obtain p_ctc p_seq where "pred = Three p_ctc p_seq wav_lens"
        by auto
      with True show ?thesis
        by (simp add: unpack_predictions_def)
    next
      case False
      with s have vt: "stage = ''valid'' \<or> stage = ''test''"
        by simp
      from compute_forward_shape(2) [OF vt, of P ids wavs wav_lens ?y False w] cf
      obtain p_ctc p_seq hyps where "pred = Four p_ctc p_seq wav_lens hyps"
        by auto
      with False show ?thesis
        by (simp add: unpack_predictions_def)
    qed
    then obtain u where "unpack_predictions pred stage = Inr u" ..
    from compute_objectives_cost_calls [OF this, of w1 P ids' phns phn_lens]
    have "take 3 (new_calls w1 w2)
            = cost_calls P (ctc_of pred) (seq_of pred) (lens_of pred) phns phn_lens"
      by (simp add: co)
    then have "take 3 (map callee_of (new_calls w1 w2))
                 = [APPEND_EOS_TOKEN, CTC_COST, SEQ_COST]"
      by (simp add: take_map cost_calls_def)
    then show ?thesis
      unfolding k by simp
  qed
  have unknown: "fst (evaluate_batch P batch stage w) = Inl ValueError \<and>
      map callee_of (new_calls w w2) = forward_callees P stage"
    if s: "stage \<notin> {''train'', ''valid'', ''test''}"
  proof -
    from s have o: "stage \<noteq> ''valid''" "stage \<noteq> ''test''" and nt: "stage \<noteq> ''train''"
      by simp_all
    from compute_forward_shape(1) [OF o, of P ids wavs wav_lens ?y False w] cf
    obtain p_ctc p_seq where "pred = Three p_ctc p_seq wav_lens"
      by auto
    with compute_objectives_mismatch(2) [OF nt, of P p_ctc p_seq wav_lens ?y w1] co
    have "r = Inl ValueError" "w2 = w1"
      by simp_all
    then show ?thesis
      by (simp add: eb k1)
  qed
  have loss: "\<exists>loss. stats ''loss'' = Some (Loss loss)"
    if "fst (evaluate_batch P batch stage w) = Inr stats" for stats
    using that by (cases r) (auto simp add: eb)
  from frame no_update fwd known unknown loss show ?thesis
    unfolding w2 by blast
qed

lemma evaluate_batch_test_returns:
  assumes "label_dict P ''phn'' = Some d" and "d ''index2lab'' = Some ind2lab"
  shows "\<exists>loss details. fst (evaluate_batch P batch ''test'' w)
           = Inr [''PER'' \<mapsto> Details details, ''loss'' \<mapsto> Loss loss]"
proof -
  obtain ids wavs wav_lens ids' phns phn_lens where
    b: "batch = ((ids, wavs, wav_lens), (ids', phns, phn_lens))"
    by (cases batch) auto
  let ?x = "(ids, wavs, wav_lens)" and ?y = "(ids', phns, phn_lens)"
  obtain pred w1 where cf: "compute_forward P ?x ?y ''test'' False w = (pred, w1)"
    by (cases "compute_forward P ?x ?y ''test'' False w") auto
  from compute_forward_shape(2) [of "''test''" P ids wavs wav_lens ?y False w] cf
  obtain p_ctc p_seq hyps where pred: "pred = Four p_ctc p_seq wav_lens hyps"
    by auto
  have nt: "''test'' \<noteq> ''train''"
    by simp
  note co = compute_objectives_eval [OF nt assms, of p_ctc p_seq wav_lens hyps ids' phns phn_lens w1]
  from evaluate_batch_eq [OF cf co [folded pred]] show ?thesis
    unfolding b by auto
qed

text \<open>
  C7. For every batch and every stage (train, valid, test), \<^verbatim>\<open>evaluate_batch\<close> performs
  the forward computation of that stage and then the loss computation (end-of-sequence
  token, CTC cost, sequence cost), and it never updates the model parameters: the model
  weights, the optimizer state and the gradients are as they were, and neither the
  backward pass nor the optimizer step nor the gradient reset is called. The frame part
  and the forward pass are proved for every stage string; whenever statistics are
  returned, they hold the loss under \<^verbatim>\<open>loss\<close>.
\<close>

theorem evaluate_batch_no_update:
  fixes P :: "('t, 'm, 'd) params" and w :: "('t, 'm) world"
  shows
  "model (state (snd (evaluate_batch P batch stage w))) = model (state w) \<and>
   optimizer (state (snd (evaluate_batch P batch stage w))) = optimizer (state w) \<and>
   grads (snd (evaluate_batch P batch stage w)) = grads w \<and>
   BACKWARD \<notin> set (map callee_of (new_calls w (snd (evaluate_batch P batch stage w)))) \<and>
   OPTIMIZER_STEP \<notin> set (map callee_of (new_calls w (snd (evaluate_batch P batch stage w)))) \<and>
   OPTIMIZER_ZERO_GRAD \<notin>
     set (map callee_of (new_calls w (snd (evaluate_batch P batch stage w)))) \<and>
   take (length (forward_callees P stage))
     (map callee_of (new_calls w (snd (evaluate_batch P batch stage w))))
     = forward_callees P stage \<and>
   (stage \<in> {''train'', ''valid'', ''test''} \<longrightarrow>
      take 3 (drop (length (forward_callees P stage))
        (map callee_of (new_calls w (snd (evaluate_batch P batch stage w)))))
        = [APPEND_EOS_TOKEN, CTC_COST, SEQ_COST]) \<and>
   (\<forall>stats. fst (evaluate_batch P batch stage w) = Inr stats \<longrightarrow>
      (\<exists>loss. stats ''loss'' = Some (Loss loss)))"
proof -
  note f = evaluate_batch_facts [of P batch stage w]
  note f1 = f [THEN conjunct1]
  note f2 = f [THEN conjunct2, THEN conjunct1]
  note f3 = f [THEN conjunct2, THEN conjunct2, THEN conjunct1]
  note f4 = f [THEN conjunct2, THEN conjunct2, THEN conjunct2, THEN conjunct1]
  note r4 = f [THEN conjunct2, THEN conjunct2, THEN conjunct2, THEN conjunct2]
  note f5 = r4 [THEN conjunct1]
  note f6 = r4 [THEN conjunct2, THEN conjunct1]
  note f7 = r4 [THEN conjunct2, THEN conjunct2, THEN conjunct1]
  note f8 = r4 [THEN conjunct2, THEN conjunct2, THEN conjunct2, THEN conjunct1]
  note f10 = r4 [THEN conjunct2, THEN conjunct2, THEN conjunct2, THEN conjunct2,
                 THEN conjunct2]
  show ?thesis
    by (intro conjI) (rule f1 f2 f3 f4 f5 f6 f7 f8 f10)+
qed

lemma demo_evaluate_valid:
  "fst (evaluate_batch demo_params (demo_inputs, demo_targets) ''valid'' demo_world)
     = Inr [''PER'' \<mapsto> Details [1], ''loss'' \<mapsto> Loss 5]"
proof -
  have "label_dict demo_params ''phn'' = Some [''index2lab'' \<mapsto> [0 \<mapsto> ''a'', 1 \<mapsto> ''b'']]"
    and "[''index2lab'' \<mapsto> [0 \<mapsto> ''a'', 1 \<mapsto> ''b'']] ''index2lab''
           = Some [0 \<mapsto> ''a'', (1::nat) \<mapsto> ''b'']"
    by (simp_all add: demo_params_sel)
  note co = compute_objectives_eval [of "''valid''", OF _ this, simplified]
  show ?thesis
    by (simp add: evaluate_batch_def demo_forward)
      (simp add: demo_targets_def co weighted_loss_def per_details_def demo_params_sel)
qed

theorem evaluate_batch_no_update_witness:
  "''valid'' \<in> {''train'', ''valid'', ''test''} \<and>
   fst (evaluate_batch demo_params (demo_inputs, demo_targets) ''valid'' demo_world)
     = Inr [''PER'' \<mapsto> Details [1], ''loss'' \<mapsto> Loss 5] \<and>
   take 3 (drop (length (forward_callees demo_params ''valid''))
     (map callee_of (new_calls demo_world
        (snd (evaluate_batch demo_params (demo_inputs, demo_targets) ''valid'' demo_world)))))
     = [APPEND_EOS_TOKEN, CTC_COST, SEQ_COST] \<and>
   model (state (snd (evaluate_batch demo_params (demo_inputs, demo_targets) ''valid''
     demo_world))) = 1 \<and>
   optimizer (state (snd (evaluate_batch demo_params (demo_inputs, demo_targets) ''valid''
     demo_world))) = 2 \<and>
   grads (snd (evaluate_batch demo_params (demo_inputs, demo_targets) ''valid''
     demo_world)) = 0 \<and>
   BACKWARD \<notin> set (map callee_of (new_calls demo_world
     (snd (evaluate_batch demo_params (demo_inputs, demo_targets) ''valid'' demo_world))))"
proof -
  note v = evaluate_batch_no_update
    [of demo_params "(demo_inputs, demo_targets)" "''valid''" demo_world]
  have hv: "''valid'' \<in> {''train'', ''valid'', ''test''}"
    by simp
  from v hv have 1: "take 3 (drop (length (forward_callees demo_params ''valid''))
     (map callee_of (new_calls demo_world
        (snd (evaluate_batch demo_params (demo_inputs, demo_targets) ''valid'' demo_world)))))
     = [APPEND_EOS_TOKEN, CTC_COST, SEQ_COST]"
    by blast
  from v have 3: "model (state (snd (evaluate_batch demo_params (demo_inputs, demo_targets)
       ''valid'' demo_world))) = model (state demo_world)"
    and 4: "optimizer (state (snd (evaluate_batch demo_params (demo_inputs, demo_targets)
       ''valid'' demo_world))) = optimizer (state demo_world)"
    and 5: "grads (snd (evaluate_batch demo_params (demo_inputs, demo_targets)
       ''valid'' demo_world)) = grads demo_world"
    and 6: "BACKWARD \<notin> set (map callee_of (new_calls demo_world
     (snd (evaluate_batch demo_params (demo_inputs, demo_targets) ''valid'' demo_world))))"
    by blast+
  from v demo_evaluate_valid
  have 7: "\<exists>loss. [''PER'' \<mapsto> Details [1::nat], ''loss'' \<mapsto> Loss 5] ''loss'' = Some (Loss loss)"
    by blast
  from hv 1 3 4 5 6 7 demo_evaluate_valid show ?thesis
    by (simp add: demo_world_sel)
qed

subsection \<open>Ranking and pruning checkpoints\<close>

lemma best_index_None: "best_index vs = None \<longleftrightarrow> vs = []"
  by (induction vs) (auto split: option.splits)

lemma best_index_bound: "best_index vs = Some i \<Longrightarrow> i < length vs"
  by (induction vs arbitrary: i) (auto split: option.splits if_splits)

lemma best_index_greatest:
  "best_index vs = Some i \<Longrightarrow> j < length vs \<Longrightarrow> vs ! j \<le> vs ! i"
proof (induction vs arbitrary: i j)
  case Nil
  then show ?case by simp
next
  case (Cons v vs)
  show ?case
  proof (cases "best_index vs")
    case None
    then have "vs = []" by (simp add: best_index_None)
    with Cons.prems show ?thesis by simp
  next
    case (Some k)
    note IH = Cons.IH [OF Some]
    show ?thesis
    proof (cases "vs ! k < v")
      case True
      with Some Cons.prems(1) have i: "i = 0" by simp
      show ?thesis
      proof (cases j)
        case 0
        with i show ?thesis by simp
      next
        case (Suc j')
        with Cons.prems(2) have "vs ! j' \<le> vs ! k" by (simp add: IH)
        with True i Suc show ?thesis by simp
      qed
    next
      case False
      with Some Cons.prems(1) have i: "i = Suc k" by simp
      show ?thesis
      proof (cases j)
        case 0
        with i False show ?thesis by simp
      next
        case (Suc j')
        with Cons.prems(2) have "vs ! j' \<le> vs ! k" by (simp add: IH)
        with i Suc show ?thesis by simp
      qed
    qed
  qed
qed

text \<open>Of several greatest values the last one is chosen: a late greatest value wins.\<close>

lemma best_index_last:
  "\<forall>u\<in>set vs. u \<le> v \<Longrightarrow> best_index (vs @ [v]) = Some (length vs)"
proof (induction vs)
  case Nil
  then show ?case by simp
next
  case (Cons u vs)
  then have "best_index (vs @ [v]) = Some (length vs)" and "u \<le> v"
    by simp_all
  then show ?case
    by (simp add: nth_append)
qed

lemma key_values_map:
  "\<forall>c\<in>set cs. key c = Inr (f c) \<Longrightarrow> key_values key cs = Inr (map f cs)"
  by (induction cs) simp_all

lemma find_checkpoint_best:
  assumes "\<forall>c\<in>set cs. key c = Inr (f c)" and "cs \<noteq> []"
  shows "\<exists>i. find_checkpoint key cs = Inr (Some i) \<and> i < length cs \<and>
             (\<forall>c\<in>set cs. f c \<le> f (cs ! i))"
proof -
  from assms(2) have "best_index (map f cs) \<noteq> None"
    by (simp add: best_index_None)
  then obtain i where i: "best_index (map f cs) = Some i"
    by auto
  from best_index_bound [OF i] have b: "i < length cs"
    by simp
  have "f c \<le> f (cs ! i)" if "c \<in> set cs" for c
  proof -
    from that obtain j where j: "j < length cs" "cs ! j = c"
      by (auto simp add: in_set_conv_nth)
    with best_index_greatest [OF i, of j] b show ?thesis
      by simp
  qed
  with i b show ?thesis
    by (simp add: find_checkpoint_def key_values_map [OF assms(1)])
qed

lemma find_checkpoint_newest:
  assumes "\<forall>c\<in>set (cs @ [new]). key c = Inr (f c)" and "\<forall>c\<in>set cs. f c \<le> f new"
  shows "find_checkpoint key (cs @ [new]) = Inr (Some (length cs))"
  using best_index_last [of "map f cs" "f new"] assms(2)
  by (simp add: find_checkpoint_def key_values_map [OF assms(1)])

lemma nths_pair:
  assumes "r < length xs" and "b < length xs"
  shows "set (nths xs {r, b}) = {xs ! r, xs ! b}"
  using assms by (auto simp add: set_nths)

lemma importance_keys_defined:
  assumes "''unixtime'' \<in> dom (meta c)" and "''PER'' \<in> dom (meta c)"
  shows "ckpt_recency c = Inr (saved_at c)" and "neg_per c = Inr (- recorded_per c)"
  using assms by (auto simp add: ckpt_recency_def neg_per_def saved_at_def recorded_per_def)

lemma protected_two_keys:
  assumes "find_checkpoint key1 cs = Inr (Some r)" and "find_checkpoint key2 cs = Inr (Some b)"
  shows "protected_checkpoints [key1, key2] cs = Inr [r, b]"
  using assms by simp

subsection \<open>The end of an epoch\<close>

text \<open>
  C5. At the end of an epoch with validation statistics that hold the error rates,
  and with every checkpoint on disk carrying its time and its error rate,
  \<^verbatim>\<open>on_epoch_end\<close> saves one more checkpoint, whose metadata hold the summarized
  validation error rate under \<^verbatim>\<open>PER\<close>, and then prunes with the two keys in this
  order, recency and negated error rate: of all checkpoints, the new one included, it
  keeps the one saved latest and the one with the lowest recorded error rate, and
  no other. When no checkpoint on disk is dated after the present time, the one saved
  latest is the new one. The save and the pruning are the last two calls, after the
  summary, the annealing and the logging.
\<close>

theorem on_epoch_end_retention:
  fixes P :: "('t, 'm, 'd) params" and w :: "('t, 'm) world"
  assumes "valid_stats = Some vs" and "vs ''PER'' = Some details"
    and "\<forall>c\<in>set (ckpts w). ''unixtime'' \<in> dom (meta c) \<and> ''PER'' \<in> dom (meta c)"
  shows "\<exists>all r b.
    fst (on_epoch_end P epoch train_stats valid_stats w) = Inr () \<and>
    length all = Suc (length (ckpts w)) \<and> butlast all = ckpts w \<and>
    meta (last all) = [''PER'' \<mapsto> summarize_error_rate P details, ''unixtime'' \<mapsto> clock w] \<and>
    r < length all \<and> b < length all \<and>
    (\<forall>c\<in>set all. saved_at c \<le> saved_at (all ! r)) \<and>
    (\<forall>c\<in>set all. recorded_per (all ! b) \<le> recorded_per c) \<and>
    ckpts (snd (on_epoch_end P epoch train_stats valid_stats w)) = nths all {r, b} \<and>
    set (ckpts (snd (on_epoch_end P epoch train_stats valid_stats w))) = {all ! r, all ! b} \<and>
    new_calls w (snd (on_epoch_end P epoch train_stats valid_stats w)) =
      [Summarize_error_rate, Lr_annealing epoch (summarize_error_rate P details), Log_stats,
       Save_checkpoint [''PER'' \<mapsto> summarize_error_rate P details],
       Delete_checkpoints [r, b]] \<and>
    ((\<forall>c\<in>set (ckpts w). saved_at c \<le> clock w) \<longrightarrow> r = length (ckpts w))"
proof -
  let ?per = "summarize_error_rate P details"
  let ?la = "lr_annealing P (scheduler (state w)) (optimizer (state w)) epoch ?per"
  let ?st = "(state w)\<lparr>optimizer := fst (snd ?la), scheduler := snd (snd ?la)\<rparr>"
  let ?w3 = "w\<lparr>state := ?st, calls := calls w @
               [Summarize_error_rate, Lr_annealing epoch ?per, Log_stats]\<rparr>"
  let ?new = "\<lparr>meta = [''PER'' \<mapsto> ?per, ''unixtime'' \<mapsto> clock w], saved = ?st\<rparr>"
  let ?all = "ckpts w @ [?new]"
  let ?w4 = "?w3\<lparr>ckpts := ?all, calls := calls ?w3 @ [Save_checkpoint [''PER'' \<mapsto> ?per]]\<rparr>"
  have oe: "on_epoch_end P epoch train_stats valid_stats w
              = delete_checkpoints [ckpt_recency, neg_per] ?w4"
    by (simp add: on_epoch_end_def assms(1,2) Let_def split_beta record_call_def
        save_and_keep_only_def save_checkpoint_def)
  have new: "''unixtime'' \<in> dom (meta ?new)" "''PER'' \<in> dom (meta ?new)"
    by simp_all
  have keys: "\<forall>c\<in>set ?all. ckpt_recency c = Inr (saved_at c)"
    "\<forall>c\<in>set ?all. neg_per c = Inr (- recorded_per c)"
    using assms(3) importance_keys_defined [OF new] importance_keys_defined
    by auto
  have ne: "?all \<noteq> []"
    by simp
  from find_checkpoint_best [OF keys(1) ne] obtain r where
    r: "find_checkpoint ckpt_recency ?all = Inr (Some r)" "r < length ?all"
      "\<forall>c\<in>set ?all. saved_at c \<le> saved_at (?all ! r)"
    by blast
  from find_checkpoint_best [OF keys(2) ne] obtain b where
    b: "find_checkpoint neg_per ?all = Inr (Some b)" "b < length ?all"
      "\<forall>c\<in>set ?all. - recorded_per c \<le> - recorded_per (?all ! b)"
    by blast
  note pr = protected_two_keys [OF r(1) b(1)]
  have res: "fst (on_epoch_end P epoch train_stats valid_stats w) = Inr ()"
    and ck: "ckpts (snd (on_epoch_end P epoch train_stats valid_stats w)) = nths ?all {r, b}"
    and cl: "calls (snd (on_epoch_end P epoch train_stats valid_stats w)) = calls w @
      [Summarize_error_rate, Lr_annealing epoch ?per, Log_stats,
       Save_checkpoint [''PER'' \<mapsto> ?per], Delete_checkpoints [r, b]]"
    unfolding oe
    by (simp_all add: delete_checkpoints_def pr record_call_def
        del: protected_checkpoints.simps)
  have newest: "r = length (ckpts w)" if "\<forall>c\<in>set (ckpts w). saved_at c \<le> clock w"
  proof -
    have "saved_at ?new = clock w"
      by (simp add: saved_at_def)
    with that have "\<forall>c\<in>set (ckpts w). saved_at c \<le> saved_at ?new"
      by simp
    from find_checkpoint_newest [OF keys(1) this] r(1) show ?thesis
      by simp
  qed
  from b(3) have lowest: "\<forall>c\<in>set ?all. recorded_per (?all ! b) \<le> recorded_per c"
    by simp
  have "length ?all = Suc (length (ckpts w))" "butlast ?all = ckpts w"
    "meta (last ?all) = [''PER'' \<mapsto> ?per, ''unixtime'' \<mapsto> clock w]"
    by simp_all
  moreover note res r(2) b(2) r(3) lowest ck
  moreover from nths_pair [OF r(2) b(2)] ck
  have "set (ckpts (snd (on_epoch_end P epoch train_stats valid_stats w)))
          = {?all ! r, ?all ! b}"
    by simp
  moreover from new_calls_append [OF cl]
  have "new_calls w (snd (on_epoch_end P epoch train_stats valid_stats w)) =
      [Summarize_error_rate, Lr_annealing epoch ?per, Log_stats,
       Save_checkpoint [''PER'' \<mapsto> ?per], Delete_checkpoints [r, b]]" .
  moreover note newest
  ultimately show ?thesis
    by blast
qed

lemma demo_ckpt_sel:
  "meta demo_ckpt1 ''PER'' = Some 5" "meta demo_ckpt1 ''unixtime'' = Some 10"
  "meta demo_ckpt2 ''PER'' = Some 30" "meta demo_ckpt2 ''unixtime'' = Some 20"
  "saved demo_ckpt1
     = \<lparr>model = 7, optimizer = 2, scheduler = 3, normalizer = 4, counter = 1\<rparr>"
  "saved demo_ckpt2
     = \<lparr>model = 8, optimizer = 2, scheduler = 3, normalizer = 4, counter = 2\<rparr>"
  by (simp_all add: demo_ckpt1_def demo_ckpt2_def)

lemma demo_world_ckpts_sel:
  "ckpts demo_world_ckpts = [demo_ckpt1, demo_ckpt2]"
  "calls demo_world_ckpts = []"
  "clock demo_world_ckpts = 100"
  "state demo_world_ckpts = state demo_world"
  by (simp_all add: demo_world_ckpts_def demo_world_sel)

lemma demo_on_epoch_end:
  "map recorded_per (ckpts (snd (on_epoch_end demo_params 3 Map.empty (Some demo_valid_stats)
      demo_world_ckpts))) = [5, 10]"
  "map saved_at (ckpts (snd (on_epoch_end demo_params 3 Map.empty (Some demo_valid_stats)
      demo_world_ckpts))) = [10, 100]"
  by (simp_all add: on_epoch_end_def demo_valid_stats_def demo_params_sel Let_def
      save_and_keep_only_def save_checkpoint_def delete_checkpoints_def find_checkpoint_def
      ckpt_recency_def neg_per_def record_call_def demo_world_ckpts_sel demo_ckpt_sel
      nths_Cons recorded_per_def saved_at_def)

theorem on_epoch_end_retention_witness:
  "demo_valid_stats ''PER'' = Some [Details [1]] \<and>
   map (\<lambda>c. meta c ''PER'') (ckpts demo_world_ckpts) = [Some 5, Some 30] \<and>
   map (\<lambda>c. meta c ''unixtime'') (ckpts demo_world_ckpts) = [Some 10, Some 20] \<and>
   clock demo_world_ckpts = 100 \<and>
   fst (on_epoch_end demo_params 3 Map.empty (Some demo_valid_stats) demo_world_ckpts)
     = Inr () \<and>
   map callee_of (new_calls demo_world_ckpts
      (snd (on_epoch_end demo_params 3 Map.empty (Some demo_valid_stats) demo_world_ckpts)))
     = [SUMMARIZE_ERROR_RATE, LR_ANNEALING, LOG_STATS, SAVE_CHECKPOINT, DELETE_CHECKPOINTS] \<and>
   map recorded_per (ckpts (snd (on_epoch_end demo_params 3 Map.empty (Some demo_valid_stats)
      demo_world_ckpts))) = [5, 10] \<and>
   map saved_at (ckpts (snd (on_epoch_end demo_params 3 Map.empty (Some demo_valid_stats)
      demo_world_ckpts))) = [10, 100]"
proof -
  have h1: "Some demo_valid_stats = Some demo_valid_stats"
    by simp
  have h2: "demo_valid_stats ''PER'' = Some [Details [1]]"
    by (simp add: demo_valid_stats_def)
  have h3: "\<forall>c\<in>set (ckpts demo_world_ckpts).
              ''unixtime'' \<in> dom (meta c) \<and> ''PER'' \<in> dom (meta c)"
    by (simp add: demo_world_ckpts_sel demo_ckpt_sel domIff)
  have h4: "\<forall>c\<in>set (ckpts demo_world_ckpts). saved_at c \<le> clock demo_world_ckpts"
    by (simp add: demo_world_ckpts_sel demo_ckpt_sel saved_at_def)
  from on_epoch_end_retention [OF h1 h2 h3, of demo_params 3 Map.empty] h4
  obtain b where
    r: "fst (on_epoch_end demo_params 3 Map.empty (Some demo_valid_stats) demo_world_ckpts)
          = Inr ()"
    and c: "new_calls demo_world_ckpts
        (snd (on_epoch_end demo_params 3 Map.empty (Some demo_valid_stats) demo_world_ckpts)) =
      [Summarize_error_rate,
       Lr_annealing 3 (summarize_error_rate demo_params [Details [1]]), Log_stats,
       Save_checkpoint [''PER'' \<mapsto> summarize_error_rate demo_params [Details [1]]],
       Delete_checkpoints [length (ckpts demo_world_ckpts), b]]"
    by blast
  from c have k: "map callee_of (new_calls demo_world_ckpts
      (snd (on_epoch_end demo_params 3 Map.empty (Some demo_valid_stats) demo_world_ckpts)))
     = [SUMMARIZE_ERROR_RATE, LR_ANNEALING, LOG_STATS, SAVE_CHECKPOINT, DELETE_CHECKPOINTS]"
    by simp
  from h2 r k demo_on_epoch_end show ?thesis
    by (simp add: demo_world_ckpts_sel demo_ckpt_sel)
qed

subsection \<open>The test evaluation\<close>

lemma forward_callees_evaluation:
  "set (forward_callees P stage) \<subseteq> set evaluation_callees"
  by (auto simp add: forward_callees_def evaluation_callees_def split: option.splits if_splits)

lemma evaluate_batch_calls:
  fixes P :: "('t, 'm, 'd) params" and w :: "('t, 'm) world"
  shows "calls (snd (evaluate_batch P batch stage w))
           = calls w @ new_calls w (snd (evaluate_batch P batch stage w))"
    and "set (map callee_of (new_calls w (snd (evaluate_batch P batch stage w))))
           \<subseteq> set evaluation_callees"
    and "stage = ''test'' \<Longrightarrow>
         BEAM_SEARCHER \<in> set (map callee_of (new_calls w (snd (evaluate_batch P batch stage w))))"
proof -
  obtain inputs targets where b: "batch = (inputs, targets)"
    by (cases batch) auto
  obtain pred w1 where cf: "compute_forward P inputs targets stage False w = (pred, w1)"
    by (cases "compute_forward P inputs targets stage False w") auto
  obtain r w2 where co: "compute_objectives P pred targets stage w1 = (r, w2)"
    by (cases "compute_objectives P pred targets stage w1") auto
  have w2: "snd (evaluate_batch P batch stage w) = w2"
    by (simp add: evaluate_batch_eq [OF cf co] b)
  from compute_forward_new_calls [of P inputs targets stage False w]
  have c1: "calls w1 = calls w @ new_calls w w1"
    by (simp add: cf)
  from compute_objectives_new_calls [of P pred targets stage w1]
  have c2: "calls w2 = calls w1 @ new_calls w1 w2"
    by (simp add: co)
  from compute_forward_callees [of w P inputs targets stage False]
  have k1: "map callee_of (new_calls w w1) = forward_callees P stage"
    by (simp add: cf)
  from compute_objectives_callees [of w1 P pred targets stage]
  have k2: "set (map callee_of (new_calls w1 w2)) \<subseteq> set evaluation_callees"
    by (auto simp add: co evaluation_callees_def)
  note n = new_calls_trans [OF c1 c2]
  have k: "map callee_of (new_calls w w2)
             = forward_callees P stage @ map callee_of (new_calls w1 w2)"
    by (simp add: n k1)
  from c1 c2 show "calls (snd (evaluate_batch P batch stage w))
           = calls w @ new_calls w (snd (evaluate_batch P batch stage w))"
    unfolding w2 by (simp add: n)
  from k2 forward_callees_evaluation [of P stage]
  show "set (map callee_of (new_calls w (snd (evaluate_batch P batch stage w))))
           \<subseteq> set evaluation_callees"
    unfolding w2 k by simp
  show "BEAM_SEARCHER \<in> set (map callee_of (new_calls w (snd (evaluate_batch P batch stage w))))"
    if "stage = ''test''"
    unfolding w2 k using that by (simp add: forward_callees_def)
qed

lemma evaluate_from_facts:
  fixes P :: "('t, 'm, 'd) params" and w :: "('t, 'm) world"
  shows "model (state (snd (evaluate_from P test_set test_stats w))) = model (state w) \<and>
         calls (snd (evaluate_from P test_set test_stats w))
           = calls w @ new_calls w (snd (evaluate_from P test_set test_stats w)) \<and>
         set (map callee_of (new_calls w (snd (evaluate_from P test_set test_stats w))))
           \<subseteq> set evaluation_callees"
proof (induction test_set arbitrary: test_stats w)
  case Nil
  show ?case
    by (simp add: new_calls_def)
next
  case (Cons batch test_set)
  obtain r w1 where eb: "evaluate_batch P batch ''test'' w = (r, w1)"
    by (cases "evaluate_batch P batch ''test'' w") auto
  from evaluate_batch_facts [of P batch "''test''" w]
  have m1: "model (state w1) = model (state w)"
    by (simp add: eb)
  from evaluate_batch_calls(1,2) [where P = P and batch = batch and stage = "''test''" and w = w]
  have c1: "calls w1 = calls w @ new_calls w w1"
    and k1: "set (map callee_of (new_calls w w1)) \<subseteq> set evaluation_callees"
    by (simp_all add: eb)
  show ?case
  proof (cases r)
    case (Inl e)
    with eb m1 c1 k1 show ?thesis
      by simp
  next
    case (Inr stats)
    let ?w2 = "snd (evaluate_from P test_set (add_stats test_stats stats) w1)"
    from Inr eb have e: "evaluate_from P (batch # test_set) test_stats w
                          = evaluate_from P test_set (add_stats test_stats stats) w1"
      by simp
    from Cons.IH [of "add_stats test_stats stats" w1]
    have m2: "model (state ?w2) = model (state w1)"
      and c2: "calls ?w2 = calls w1 @ new_calls w1 ?w2"
      and k2: "set (map callee_of (new_calls w1 ?w2)) \<subseteq> set evaluation_callees"
      by simp_all
    note n = new_calls_trans [OF c1 c2]
    from c1 c2 have "calls ?w2 = calls w @ new_calls w ?w2"
      by (simp add: n)
    moreover from k1 k2 have "set (map callee_of (new_calls w ?w2)) \<subseteq> set evaluation_callees"
      by (simp add: n)
    ultimately show ?thesis
      unfolding e using m1 m2 by simp
  qed
qed

lemma dom_add_stats: "dom (add_stats dataset_stats batch_stats) = dom dataset_stats \<union> dom batch_stats"
  by (auto simp add: add_stats_def split: option.splits)

lemma evaluate_from_returns:
  assumes "label_dict P ''phn'' = Some d" and "d ''index2lab'' = Some ind2lab"
  shows "\<exists>stats. fst (evaluate_from P test_set test_stats w) = Inr stats \<and>
           dom test_stats \<subseteq> dom stats \<and> (test_set \<noteq> [] \<longrightarrow> ''PER'' \<in> dom stats)"
proof (induction test_set arbitrary: test_stats w)
  case Nil
  show ?case by simp
next
  case (Cons batch test_set)
  from evaluate_batch_test_returns [OF assms, of batch w]
  obtain loss details w1 where
    eb: "evaluate_batch P batch ''test'' w
           = (Inr [''PER'' \<mapsto> Details details, ''loss'' \<mapsto> Loss loss], w1)"
    by (cases "evaluate_batch P batch ''test'' w") auto
  let ?acc = "add_stats test_stats [''PER'' \<mapsto> Details details, ''loss'' \<mapsto> Loss loss]"
  from Cons.IH [of ?acc w1] obtain stats where
    "fst (evaluate_from P test_set ?acc w1) = Inr stats" "dom ?acc \<subseteq> dom stats"
    by blast
  then show ?case
    by (auto simp add: eb dom_add_stats)
qed

lemma evaluate_from_beam:
  fixes P :: "('t, 'm, 'd) params" and w :: "('t, 'm) world"
  assumes "test_set \<noteq> []"
  shows "BEAM_SEARCHER
           \<in> set (map callee_of (new_calls w (snd (evaluate_from P test_set test_stats w))))"
proof -
  from assms obtain batch rest where ts: "test_set = batch # rest"
    by (cases test_set) auto
  obtain r w1 where eb: "evaluate_batch P batch ''test'' w = (r, w1)"
    by (cases "evaluate_batch P batch ''test'' w") auto
  from evaluate_batch_calls(1,3) [where P = P and batch = batch and stage = "''test''" and w = w]
  have c1: "calls w1 = calls w @ new_calls w w1"
    and k1: "BEAM_SEARCHER \<in> set (map callee_of (new_calls w w1))"
    by (simp_all add: eb)
  show ?thesis
  proof (cases r)
    case (Inl e)
    with eb k1 show ?thesis
      by (simp add: ts)
  next
    case (Inr stats)
    let ?w2 = "snd (evaluate_from P rest (add_stats test_stats stats) w1)"
    from evaluate_from_facts [of P rest "add_stats test_stats stats" w1]
    have c2: "calls ?w2 = calls w1 @ new_calls w1 ?w2"
      by simp
    from k1 have "BEAM_SEARCHER \<in> set (map callee_of (new_calls w ?w2))"
      by (simp add: new_calls_trans [OF c1 c2])
    with Inr eb show ?thesis
      by (simp add: ts)
  qed
qed

subsection \<open>After training: restore the best checkpoint, evaluate, report\<close>

lemma recover_best:
  fixes w :: "('t, 'm) world"
  assumes "ckpts w \<noteq> []" and "\<forall>c\<in>set (ckpts w). ''PER'' \<in> dom (meta c)"
  shows "\<exists>best. best \<in> set (ckpts w) \<and>
           (\<forall>c\<in>set (ckpts w). recorded_per best \<le> recorded_per c) \<and>
           recover_if_possible (Some neg_per) w
             = (Inr (), record_call (Load_checkpoint (meta best)) (w\<lparr>state := saved best\<rparr>))"
proof -
  from assms(2) have keys: "\<forall>c\<in>set (ckpts w). neg_per c = Inr (- recorded_per c)"
    by (auto simp add: neg_per_def recorded_per_def)
  from find_checkpoint_best [OF keys assms(1)] obtain i where
    i: "find_checkpoint neg_per (ckpts w) = Inr (Some i)" "i < length (ckpts w)"
      "\<forall>c\<in>set (ckpts w). - recorded_per c \<le> - recorded_per (ckpts w ! i)"
    by blast
  from i(2) have "ckpts w ! i \<in> set (ckpts w)"
    by simp
  moreover from i(3) have "\<forall>c\<in>set (ckpts w). recorded_per (ckpts w ! i) \<le> recorded_per c"
    by simp
  moreover have "recover_if_possible (Some neg_per) w
      = (Inr (), record_call (Load_checkpoint (meta (ckpts w ! i)))
                   (w\<lparr>state := saved (ckpts w ! i)\<rparr>))"
    by (simp add: recover_if_possible_def i(1))
  ultimately show ?thesis
    by blast
qed

text \<open>
  C6. Suppose the resume and the training loop have completed, at least one checkpoint
  is on disk, every checkpoint on disk records its error rate, the test set has a
  batch and the label dictionary has its entries. Then the script ends without an
  exception, and after the training loop it makes exactly these calls, in this order:
  it loads a checkpoint whose recorded error rate is the lowest on disk, so that the
  recoverables are those saved in it; it runs the test evaluation, which uses the beam
  searcher and calls only collaborators of the forward pass and of the objectives; it
  logs the statistics, summarizes the error rates, opens the configured report file
  and prints the summary and the alignments. The weights at the end are still those of
  the restored checkpoint.
\<close>

theorem main_restore_evaluate_report:
  fixes P :: "('t, 'm, 'd) params" and w :: "('t, 'm) world"
  assumes "recover_if_possible None w = (Inr (), w1)" and "fit w1 = (Inr (), w2)"
    and "ckpts w2 \<noteq> []" and "\<forall>c\<in>set (ckpts w2). ''PER'' \<in> dom (meta c)"
    and "test_set \<noteq> []"
    and "label_dict P ''phn'' = Some d" and "d ''index2lab'' = Some ind2lab"
  shows "\<exists>best w3 ev.
    fst (main P fit test_set w) = Inr () \<and>
    best \<in> set (ckpts w2) \<and>
    (\<forall>c\<in>set (ckpts w2). recorded_per best \<le> recorded_per c) \<and>
    w3 = record_call (Load_checkpoint (meta best)) (w2\<lparr>state := saved best\<rparr>) \<and>
    state w3 = saved best \<and>
    ev = new_calls w3 (snd (evaluate P test_set w3)) \<and>
    new_calls w2 (snd (main P fit test_set w))
      = [Load_checkpoint (meta best)] @ ev @
        [Log_stats, Wer_summary, Open_file (wer_file P), Print_wer_summary, Print_alignments] \<and>
    BEAM_SEARCHER \<in> set (map callee_of ev) \<and>
    set (map callee_of ev) \<subseteq> set evaluation_callees \<and>
    model (state (snd (main P fit test_set w))) = model (saved best)"
proof -
  from recover_best [OF assms(3,4)] obtain best where
    best: "best \<in> set (ckpts w2)" "\<forall>c\<in>set (ckpts w2). recorded_per best \<le> recorded_per c"
    and rec: "recover_if_possible (Some neg_per) w2
      = (Inr (), record_call (Load_checkpoint (meta best)) (w2\<lparr>state := saved best\<rparr>))"
    by blast
  let ?w3 = "record_call (Load_checkpoint (meta best)) (w2\<lparr>state := saved best\<rparr>)"
  have s3: "state ?w3 = saved best" and c3: "calls ?w3 = calls w2 @ [Load_checkpoint (meta best)]"
    by (simp_all add: record_call_def)
  obtain r w4 where ev: "evaluate P test_set ?w3 = (r, w4)"
    by (cases "evaluate P test_set ?w3") auto
  from evaluate_from_returns [OF assms(6,7), of test_set Map.empty ?w3] assms(5) ev
  obtain test_stats details where r: "r = Inr test_stats" and per: "test_stats ''PER'' = Some details"
    by (auto simp add: evaluate_def)
  from evaluate_from_facts [of P test_set Map.empty ?w3] ev
  have m4: "model (state w4) = model (saved best)"
    and c4: "calls w4 = calls ?w3 @ new_calls ?w3 w4"
    and k4: "set (map callee_of (new_calls ?w3 w4)) \<subseteq> set evaluation_callees"
    by (simp_all add: evaluate_def s3)
  from evaluate_from_beam [OF assms(5), where P = P and test_stats = Map.empty and w = ?w3] ev
  have b4: "BEAM_SEARCHER \<in> set (map callee_of (new_calls ?w3 w4))"
    by (simp add: evaluate_def)
  let ?report = "[Log_stats, Wer_summary, Open_file (wer_file P), Print_wer_summary,
                  Print_alignments]"
  from rec ev have rec': "recover_if_possible (Some neg_per) w2
        = (Inr (), w2\<lparr>state := saved best, calls := calls w2 @ [Load_checkpoint (meta best)]\<rparr>)"
    and ev': "evaluate P test_set
        (w2\<lparr>state := saved best, calls := calls w2 @ [Load_checkpoint (meta best)]\<rparr>)
        = (r, w4)"
    by (simp_all add: record_call_def)
  have m: "main P fit test_set w
             = (Inr (), w4\<lparr>calls := calls w4 @ ?report\<rparr>)"
    by (simp add: main_def assms(1,2) rec' ev' r per Let_def record_call_def)
  have "calls (snd (main P fit test_set w))
          = calls w2 @ ([Load_checkpoint (meta best)] @ new_calls ?w3 w4 @ ?report)"
    unfolding m by (simp add: c4 c3)
  then have n: "new_calls w2 (snd (main P fit test_set w))
          = [Load_checkpoint (meta best)] @ new_calls ?w3 w4 @ ?report"
    by (rule new_calls_append)
  have e: "new_calls ?w3 w4 = new_calls ?w3 (snd (evaluate P test_set ?w3))"
    by (simp add: ev)
  have "fst (main P fit test_set w) = Inr ()"
    and "model (state (snd (main P fit test_set w))) = model (saved best)"
    unfolding m by (simp_all add: m4)
  with best s3 n b4 k4 show ?thesis
    unfolding e by blast
qed

text \<open>
  The main part on the small configuration, with the two checkpoints on disk, a training
  loop that does nothing and a test set of one batch.
\<close>

lemma demo_recover_latest:
  "recover_if_possible None demo_world_ckpts
     = (Inr (), demo_world_ckpts\<lparr>state := saved demo_ckpt2,
                  calls := [Load_checkpoint (meta demo_ckpt2)]\<rparr>)"
  by (simp add: recover_if_possible_def find_checkpoint_def ckpt_recency_def
      demo_world_ckpts_sel demo_ckpt_sel record_call_def)

lemma demo_main:
  "fst (main demo_params (\<lambda>w. (Inr (), w)) [(demo_inputs, demo_targets)] demo_world_ckpts)
     = Inr ()"
  "model (state (snd (main demo_params (\<lambda>w. (Inr (), w)) [(demo_inputs, demo_targets)]
     demo_world_ckpts))) = 7"
  "map callee_of (calls (snd (main demo_params (\<lambda>w. (Inr (), w)) [(demo_inputs, demo_targets)]
     demo_world_ckpts)))
     = [LOAD_CHECKPOINT, LOAD_CHECKPOINT,
        AUGMENTATION, COMPUTE_FEATURES, NORMALIZE, ENC, CTC_LIN, LOG_SOFTMAX,
        PREPEND_BOS_TOKEN, EMB, DEC, SEQ_LIN, LOG_SOFTMAX, BEAM_SEARCHER,
        APPEND_EOS_TOKEN, CTC_COST, SEQ_COST,
        CONVERT_INDEX_TO_LAB, UNDO_PADDING, CONVERT_INDEX_TO_LAB, WER_DETAILS_FOR_BATCH,
        LOG_STATS, WER_SUMMARY, OPEN_FILE, PRINT_WER_SUMMARY, PRINT_ALIGNMENTS]"
proof -
  have d: "label_dict demo_params ''phn'' = Some [''index2lab'' \<mapsto> [0 \<mapsto> ''a'', 1 \<mapsto> ''b'']]"
    and i: "[''index2lab'' \<mapsto> [0 \<mapsto> ''a'', 1 \<mapsto> ''b'']] ''index2lab''
           = Some [0 \<mapsto> ''a'', (1::nat) \<mapsto> ''b'']"
    by (simp_all add: demo_params_sel)
  note co = compute_objectives_eval [of "''test''", OF _ d i, simplified]
  show "fst (main demo_params (\<lambda>w. (Inr (), w)) [(demo_inputs, demo_targets)] demo_world_ckpts)
     = Inr ()"
    and "model (state (snd (main demo_params (\<lambda>w. (Inr (), w)) [(demo_inputs, demo_targets)]
     demo_world_ckpts))) = 7"
    and "map callee_of (calls (snd (main demo_params (\<lambda>w. (Inr (), w))
     [(demo_inputs, demo_targets)] demo_world_ckpts)))
     = [LOAD_CHECKPOINT, LOAD_CHECKPOINT,
        AUGMENTATION, COMPUTE_FEATURES, NORMALIZE, ENC, CTC_LIN, LOG_SOFTMAX,
        PREPEND_BOS_TOKEN, EMB, DEC, SEQ_LIN, LOG_SOFTMAX, BEAM_SEARCHER,
        APPEND_EOS_TOKEN, CTC_COST, SEQ_COST,
        CONVERT_INDEX_TO_LAB, UNDO_PADDING, CONVERT_INDEX_TO_LAB, WER_DETAILS_FOR_BATCH,
        LOG_STATS, WER_SUMMARY, OPEN_FILE, PRINT_WER_SUMMARY, PRINT_ALIGNMENTS]"
    unfolding main_def demo_recover_latest
    by (simp_all add: recover_if_possible_def find_checkpoint_def neg_per_def
        demo_world_ckpts_sel demo_ckpt_sel record_call_def evaluate_def evaluate_batch_def
        demo_inputs_def demo_targets_def compute_forward_eq Let_def demo_params_sel
        demo_phns_sel co add_stats_def cost_calls_def scoring_calls_def)
qed

theorem main_restore_evaluate_report_witness:
  "fst (recover_if_possible None demo_world_ckpts) = Inr () \<and>
   ckpts (snd (recover_if_possible None demo_world_ckpts)) = [demo_ckpt1, demo_ckpt2] \<and>
   meta demo_ckpt1 ''PER'' = Some 5 \<and> meta demo_ckpt2 ''PER'' = Some 30 \<and>
   [(demo_inputs, demo_targets)] \<noteq> [] \<and>
   label_dict demo_params ''phn'' = Some [''index2lab'' \<mapsto> [0 \<mapsto> ''a'', 1 \<mapsto> ''b'']] \<and>
   fst (main demo_params (\<lambda>w. (Inr (), w)) [(demo_inputs, demo_targets)] demo_world_ckpts)
     = Inr () \<and>
   model (state (snd (main demo_params (\<lambda>w. (Inr (), w)) [(demo_inputs, demo_targets)]
     demo_world_ckpts))) = model (saved demo_ckpt1) \<and>
   map callee_of (calls (snd (main demo_params (\<lambda>w. (Inr (), w)) [(demo_inputs, demo_targets)]
     demo_world_ckpts)))
     = [LOAD_CHECKPOINT, LOAD_CHECKPOINT,
        AUGMENTATION, COMPUTE_FEATURES, NORMALIZE, ENC, CTC_LIN, LOG_SOFTMAX,
        PREPEND_BOS_TOKEN, EMB, DEC, SEQ_LIN, LOG_SOFTMAX, BEAM_SEARCHER,
        APPEND_EOS_TOKEN, CTC_COST, SEQ_COST,
        CONVERT_INDEX_TO_LAB, UNDO_PADDING, CONVERT_INDEX_TO_LAB, WER_DETAILS_FOR_BATCH,
        LOG_STATS, WER_SUMMARY, OPEN_FILE, PRINT_WER_SUMMARY, PRINT_ALIGNMENTS]"
proof -
  let ?w1 = "demo_world_ckpts\<lparr>state := saved demo_ckpt2,
               calls := [Load_checkpoint (meta demo_ckpt2)]\<rparr>"
  let ?fit = "\<lambda>w :: (nat, nat) world. (Inr () :: error + unit, w)"
  have h2: "?fit ?w1 = (Inr (), ?w1)"
    by simp
  have h3: "ckpts ?w1 \<noteq> []"
    and h4: "\<forall>c\<in>set (ckpts ?w1). ''PER'' \<in> dom (meta c)"
    by (simp_all add: demo_world_ckpts_sel demo_ckpt_sel domIff)
  have h5: "[(demo_inputs, demo_targets)] \<noteq> []"
    by simp
  have h6: "label_dict demo_params ''phn'' = Some [''index2lab'' \<mapsto> [0 \<mapsto> ''a'', 1 \<mapsto> ''b'']]"
    and h7: "[''index2lab'' \<mapsto> [0 \<mapsto> ''a'', 1 \<mapsto> ''b'']] ''index2lab''
           = Some [0 \<mapsto> ''a'', (1::nat) \<mapsto> ''b'']"
    by (simp_all add: demo_params_sel)
  from main_restore_evaluate_report
    [where fit = ?fit and P = demo_params, OF demo_recover_latest h2 h3 h4 h5 h6 h7]
  have r: "fst (main demo_params ?fit [(demo_inputs, demo_targets)] demo_world_ckpts) = Inr ()"
    by blast
  from r h5 h6 demo_main(2,3) show ?thesis
    by (simp add: demo_recover_latest demo_world_ckpts_sel demo_ckpt_sel)
qed

end
